theory Spec2Isabelle
  imports Complex_Main "HOL-Library.Multiset"
begin

section \<open>Common ground: exceptions and calendar dates\<close>

text \<open>
  The services are Python programs over a relational store (SQLAlchemy) and a message
  broker (pika). A raise of the source is a value \<open>Inl e\<close> of a sum type. Only the
  exceptions that the message and the stored data decide are modelled, with one
  exception: the callback of the analytics consumer is modelled a second time with its
  session written out, and there every database statement can fail (OperationalError).
\<close>

datatype error =
    JSONDecodeError
  | KeyError
  | ValueError
  | TypeError
  | IntegrityError
  | OverflowError
  | AMQPConnectionError
  | OperationalError

text \<open>
  A \<open>datetime.date\<close> is its proleptic Gregorian ordinal (\<open>date.toordinal()\<close>):
  0001-01-01 is 1 and 9999-12-31 is 3652059. Python refuses every date outside this range,
  and a \<open>timedelta\<close> of more than 999999999 days, with OverflowError.
\<close>

type_synonym date = int

definition MINORDINAL :: int where
  "MINORDINAL = 1"

definition MAXORDINAL :: int where
  "MAXORDINAL = 3652059"

definition is_date :: "int \<Rightarrow> bool" where
  "is_date d = (MINORDINAL \<le> d \<and> d \<le> MAXORDINAL)"

definition timedelta :: "int \<Rightarrow> error + int" where
  "timedelta days = (if \<bar>days\<bar> \<le> 999999999 then Inr days else Inl OverflowError)"

definition date_add :: "date \<Rightarrow> int \<Rightarrow> error + date" where
  "date_add d days = (if is_date (d + days) then Inr (d + days) else Inl OverflowError)"

text \<open>
  A date that arrives as text in a JSON document. \<open>Absent\<close>: the key is missing;
  \<open>Null\<close>: the value is JSON null (the empty string behaves like it under \<open>dict.get\<close>);
  \<open>Malformed\<close>: a non-empty string that \<open>datetime.fromisoformat\<close> rejects, which
  includes every text that names a day outside the range of \<open>date\<close>;
  \<open>Iso d\<close>: the ISO text of the date with ordinal \<open>d\<close>.
\<close>

datatype iso_field = Absent | Null | Malformed | Iso date

text \<open>\<open>datetime.fromisoformat(doc[key])\<close>: subscript, then parse.\<close>

definition fromisoformat_item :: "iso_field \<Rightarrow> error + date" where
  "fromisoformat_item f =
     (case f of
        Absent \<Rightarrow> Inl KeyError
      | Null \<Rightarrow> Inl TypeError
      | Malformed \<Rightarrow> Inl ValueError
      | Iso d \<Rightarrow> (if is_date d then Inr d else Inl ValueError))"

text \<open>\<open>int(x)\<close> of a Python number: truncation toward zero.\<close>

definition py_int :: "real \<Rightarrow> int" where
  "py_int x = (if 0 \<le> x then \<lfloor>x\<rfloor> else \<lceil>x\<rceil>)"

text \<open>
  \<open>round(x)\<close> of a Python number: the nearest integer, a tie going to the even
  neighbour.
\<close>

definition py_round :: "real \<Rightarrow> int" where
  "py_round x =
     (let f = \<lfloor>x\<rfloor>; r = x - of_int f
      in if r < 1 / 2 then f
         else if 1 / 2 < r then f + 1
         else if even f then f else f + 1)"

section \<open>Analytics service: data model (models.py, config.py)\<close>

text \<open>
  A row of \<open>cycle_analytics\<close>. Columns declared \<open>nullable=False\<close> hold a value,
  the others an option. A Python float that the code computes as a quotient of integers
  is the exact quotient, a real number: for the integers an INTEGER column holds, the
  float is 0.0 exactly when the quotient is 0, and \<open>int\<close> of the float is \<open>int\<close> of
  the quotient. The timestamps \<open>created_at\<close> and \<open>updated_at\<close> are left out.
\<close>

record cycle_analytics =
  ca_id :: int
  ca_user_id :: int
  ca_cycle_id :: int
  ca_start_date :: date
  ca_end_date :: "date option"
  ca_cycle_length :: "int option"
  ca_period_length :: "int option"
  ca_is_regular :: "bool option"
  ca_average_cycle_length :: "real option"
  ca_cycle_variance :: "real option"

text \<open>
  A \<open>Prediction\<close> object as \<open>predict_next_period\<close> builds it, before the session
  has written it: it has no id yet, and the column defaults are not applied.
\<close>

record new_prediction =
  np_user_id :: "int option"
  np_predicted_start_date :: date
  np_confidence_score :: real
  np_prediction_method :: string
  np_based_on_cycles :: int
  np_notes :: string

text \<open>A row of \<open>predictions\<close>; \<open>created_at\<close> is left out.\<close>

record prediction =
  p_id :: int
  p_user_id :: int
  p_predicted_start_date :: date
  p_confidence_score :: real
  p_prediction_method :: string
  p_based_on_cycles :: int
  p_notes :: string
  p_is_active :: bool
  p_actual_start_date :: "date option"

text \<open>The committed tables of the analytics database.\<close>

record analytics_db =
  cycle_analytics_table :: "cycle_analytics list"
  predictions_table :: "prediction list"

definition DEFAULT_CYCLE_LENGTH :: int where
  "DEFAULT_CYCLE_LENGTH = 28"

text \<open>\<open>str(n)\<close> of a natural number, for the f-strings.\<close>

definition digit :: "nat \<Rightarrow> char" where
  "digit n = ''0123456789'' ! (n mod 10)"

fun str_nat :: "nat \<Rightarrow> string" where
  "str_nat n = (if n < 10 then [digit n] else str_nat (n div 10) @ [digit n])"

declare str_nat.simps [simp del]

section \<open>Analytics service: the prediction engine (prediction_engine.py)\<close>

text \<open>
  \<open>CycleAnalytics.query.filter_by(user_id=user_id)\<close>. The handler takes the user id
  from \<open>message.get('user_id')\<close>, which may be None; the column is not nullable, so
  None selects no row.
\<close>

definition filter_by_user :: "int option \<Rightarrow> cycle_analytics list \<Rightarrow> cycle_analytics list" where
  "filter_by_user user_id rows = filter (\<lambda>a. Some (ca_user_id a) = user_id) rows"

text \<open>
  \<open>.order_by(CycleAnalytics.start_date.desc())\<close>. SQL leaves the order of rows with
  equal start dates open; the model keeps them in table order.
\<close>

definition order_by_start_date_desc :: "cycle_analytics list \<Rightarrow> cycle_analytics list" where
  "order_by_start_date_desc rows = sort_key (\<lambda>a. - ca_start_date a) rows"

definition default_limit :: nat where
  "default_limit = 6"

text \<open>The query both statistics share: lines 25-29 and 43-47.\<close>

definition with_length :: "cycle_analytics list \<Rightarrow> int option \<Rightarrow> cycle_analytics list" where
  "with_length rows user_id =
     filter (\<lambda>a. ca_cycle_length a \<noteq> None) (filter_by_user user_id rows)"

definition recent_with_length :: "cycle_analytics list \<Rightarrow> int option \<Rightarrow> cycle_analytics list" where
  "recent_with_length rows user_id =
     take default_limit (order_by_start_date_desc (with_length rows user_id))"

definition cycle_lengths :: "cycle_analytics list \<Rightarrow> int list" where
  "cycle_lengths analytics = List.map_filter ca_cycle_length analytics"

definition calculate_average_cycle_length :: "cycle_analytics list \<Rightarrow> int option \<Rightarrow> real" where
  "calculate_average_cycle_length rows user_id =
     (let analytics = recent_with_length rows user_id
      in if analytics = [] then of_int DEFAULT_CYCLE_LENGTH
         else of_int (sum_list (cycle_lengths analytics)) / of_nat (length analytics))"

definition calculate_cycle_variance :: "cycle_analytics list \<Rightarrow> int option \<Rightarrow> real" where
  "calculate_cycle_variance rows user_id =
     (let analytics = recent_with_length rows user_id
      in if length analytics < 2 then 0
         else
           (let ls = cycle_lengths analytics;
                mean = of_int (sum_list ls) / of_nat (length ls)
            in sum_list (map (\<lambda>x. (of_int x - mean) ^ 2) ls) / of_nat (length ls)))"

text \<open>
  \<open>predict_next_period\<close>, lines 58-104. The date arithmetic of line 89 raises
  OverflowError when the predicted day lies after 9999-12-31.
\<close>

definition predict_next_period :: "cycle_analytics list \<Rightarrow> int option \<Rightarrow> error + new_prediction option" where
  "predict_next_period rows user_id =
     (case order_by_start_date_desc (filter_by_user user_id rows) of
        [] \<Rightarrow> Inr None
      | latest_analytics # _ \<Rightarrow>
          (let avg_cycle_length = calculate_average_cycle_length rows user_id;
               variance = calculate_cycle_variance rows user_id;
               confidence = (if variance < 2 then 9 / 10 else if variance < 5 then 3 / 4 else 6 / 10);
               is_regular = (if variance < 2 then True else if variance < 5 then True else False)
           in case timedelta (py_int avg_cycle_length) of
                Inl e \<Rightarrow> Inl e
              | Inr days \<Rightarrow>
                  (case date_add (ca_start_date latest_analytics) days of
                     Inl e \<Rightarrow> Inl e
                   | Inr predicted_date \<Rightarrow>
                       (let cycle_count = length (filter_by_user user_id rows)
                        in Inr (Some
                             \<lparr>np_user_id = user_id,
                              np_predicted_start_date = predicted_date,
                              np_confidence_score = confidence,
                              np_prediction_method = ''average_cycle_length'',
                              np_based_on_cycles = int (min cycle_count 6),
                              np_notes = ''Predicted using '' @ str_nat (min cycle_count 6)
                                @ '' recent cycles. Cycle regularity: ''
                                @ (if is_regular then ''regular'' else ''irregular'')\<rparr>)))))"

section \<open>Analytics service: the consumer (message_queue.py)\<close>

text \<open>
  The body of a delivery on \<open>analytics_cycle_queue\<close> after \<open>json.loads\<close>: the keys
  the handler reads, each with what the document holds. \<open>None\<close> for \<open>event_type\<close> means
  the key is missing (line 85 subscripts it); for \<open>user_id\<close> and \<open>cycle_id\<close>, read with
  \<open>message.get\<close>, it means missing or null. The two dates are those of
  \<open>message.get('data', {})\<close>. A body that is no JSON document at all is \<open>None\<close> of type
  \<open>cycle_message option\<close>. Documents whose values have other JSON types are not
  modelled.
\<close>

record cycle_message =
  msg_event_type :: "string option"
  msg_user_id :: "int option"
  msg_cycle_id :: "int option"
  msg_start_date :: iso_field
  msg_end_date :: iso_field

text \<open>
  The position of the first row a query yields, for \<open>.first()\<close> on a query that the
  handler then updates in place.
\<close>

fun first_index :: "('a \<Rightarrow> bool) \<Rightarrow> 'a list \<Rightarrow> nat option" where
  "first_index P [] = None"
| "first_index P (x # xs) = (if P x then Some 0 else map_option Suc (first_index P xs))"

text \<open>
  \<open>CycleAnalytics.query.filter_by(cycle_id=cycle_id).first()\<close>, line 98. The query has
  no ORDER BY; the model takes the first row in table order.
\<close>

definition first_by_cycle_id :: "int option \<Rightarrow> cycle_analytics list \<Rightarrow> nat option" where
  "first_by_cycle_id cycle_id rows = first_index (\<lambda>a. Some (ca_cycle_id a) = cycle_id) rows"

text \<open>
  The primary key of a new row. The database draws it from a sequence; all the model
  needs is that it is fresh.
\<close>

definition fresh_id :: "int list \<Rightarrow> int" where
  "fresh_id ids = fold max ids 0 + 1"

text \<open>
  Lines 109-114: \<open>cycle_data.get('end_date')\<close>, when truthy, is parsed and gives the end
  date and the period length \<open>(end_date - start_date).days + 1\<close>.
\<close>

definition parse_end_date :: "iso_field \<Rightarrow> date \<Rightarrow> error + (date \<times> int) option" where
  "parse_end_date f start_date =
     (case f of
        Absent \<Rightarrow> Inr None
      | Null \<Rightarrow> Inr None
      | Malformed \<Rightarrow> Inl ValueError
      | Iso d \<Rightarrow> (if is_date d then Inr (Some (d, d - start_date + 1)) else Inl ValueError))"

text \<open>
  Lines 97-114, and the flush that the query of line 117 triggers: the table as the
  session sees it, and the position of the row \<open>analytics\<close>. A new object is written
  only at that flush, where a missing user id or cycle id violates NOT NULL.
\<close>

definition upsert_analytics :: "cycle_analytics list \<Rightarrow> cycle_message \<Rightarrow> error + cycle_analytics list \<times> nat" where
  "upsert_analytics rows m =
     (case first_by_cycle_id (msg_cycle_id m) rows of
        Some i \<Rightarrow>
          (case parse_end_date (msg_end_date m) (ca_start_date (rows ! i)) of
             Inl e \<Rightarrow> Inl e
           | Inr None \<Rightarrow> Inr (rows, i)
           | Inr (Some (end_date, period_length)) \<Rightarrow>
               Inr (rows[i := (rows ! i)\<lparr>ca_end_date := Some end_date,
                                        ca_period_length := Some period_length\<rparr>], i))
      | None \<Rightarrow>
          (case fromisoformat_item (msg_start_date m) of
             Inl e \<Rightarrow> Inl e
           | Inr start_date \<Rightarrow>
               (case parse_end_date (msg_end_date m) start_date of
                  Inl e \<Rightarrow> Inl e
                | Inr ended \<Rightarrow>
                    (case (msg_user_id m, msg_cycle_id m) of
                       (Some user_id, Some cycle_id) \<Rightarrow>
                         Inr (rows @
                              [\<lparr>ca_id = fresh_id (map ca_id rows),
                                ca_user_id = user_id,
                                ca_cycle_id = cycle_id,
                                ca_start_date = start_date,
                                ca_end_date = map_option fst ended,
                                ca_cycle_length = None,
                                ca_period_length = map_option snd ended,
                                ca_is_regular = None,
                                ca_average_cycle_length = None,
                                ca_cycle_variance = None\<rparr>],
                              length rows)
                     | _ \<Rightarrow> Inl IntegrityError))))"

text \<open>
  Lines 122-125: the user's most recent row that starts strictly before \<open>start_date\<close>.
\<close>

definition previous_analytics :: "cycle_analytics list \<Rightarrow> int option \<Rightarrow> date \<Rightarrow> cycle_analytics option" where
  "previous_analytics rows user_id start_date =
     (case order_by_start_date_desc
             (filter (\<lambda>a. ca_start_date a < start_date) (filter_by_user user_id rows)) of
        [] \<Rightarrow> None
      | prev_analytics # _ \<Rightarrow> Some prev_analytics)"

text \<open>
  Line 119: \<open>analytics.cycle_variance < 5 if analytics.cycle_variance else None\<close>; the
  float 0.0 is falsy.
\<close>

definition is_regular_of :: "real \<Rightarrow> bool option" where
  "is_regular_of cycle_variance = (if cycle_variance \<noteq> 0 then Some (cycle_variance < 5) else None)"

text \<open>
  Lines 116-128 on the row at position \<open>i\<close>. The statistics are computed first, from the
  table as flushed, and the cycle length of the row is set after them. The session flushes
  before each query, but no query here reads a column set since the flush before it.
\<close>

definition refresh_analytics :: "cycle_analytics list \<Rightarrow> int option \<Rightarrow> nat \<Rightarrow> cycle_analytics list" where
  "refresh_analytics rows user_id i =
     (let a = rows ! i;
          average_cycle_length = calculate_average_cycle_length rows user_id;
          cycle_variance = calculate_cycle_variance rows user_id;
          a1 = a\<lparr>ca_average_cycle_length := Some average_cycle_length,
                 ca_cycle_variance := Some cycle_variance,
                 ca_is_regular := is_regular_of cycle_variance\<rparr>;
          a2 = (case previous_analytics rows user_id (ca_start_date a) of
                  None \<Rightarrow> a1
                | Some prev_analytics \<Rightarrow>
                    a1\<lparr>ca_cycle_length := Some (ca_start_date a - ca_start_date prev_analytics)\<rparr>)
      in rows[i := a2])"

text \<open>Lines 84-128: what \<open>db.session.commit()\<close> of line 130 then commits.\<close>

definition process_cycle_analytics :: "cycle_analytics list \<Rightarrow> cycle_message \<Rightarrow> error + cycle_analytics list" where
  "process_cycle_analytics rows m =
     (case msg_event_type m of
        None \<Rightarrow> Inl KeyError
      | Some _ \<Rightarrow>
          (case upsert_analytics rows m of
             Inl e \<Rightarrow> Inl e
           | Inr (rows1, i) \<Rightarrow> Inr (refresh_analytics rows1 (msg_user_id m) i)))"

text \<open>
  Lines 139-140: \<open>Prediction.query.filter_by(user_id=user_id, is_active=True)
  .update({'is_active': False})\<close>.
\<close>

definition deactivate_predictions :: "int option \<Rightarrow> prediction list \<Rightarrow> prediction list" where
  "deactivate_predictions user_id ps =
     map (\<lambda>p. if Some (p_user_id p) = user_id \<and> p_is_active p
               then p\<lparr>p_is_active := False\<rparr> else p) ps"

text \<open>
  Lines 142-143: \<open>db.session.add(prediction)\<close>, written by the commit: the row gets its
  id and the column default \<open>is_active = True\<close>; \<open>user_id\<close> is NOT NULL.
\<close>

definition insert_prediction :: "new_prediction \<Rightarrow> prediction list \<Rightarrow> error + prediction list" where
  "insert_prediction n ps =
     (case np_user_id n of
        None \<Rightarrow> Inl IntegrityError
      | Some user_id \<Rightarrow>
          Inr (ps @
               [\<lparr>p_id = fresh_id (map p_id ps),
                 p_user_id = user_id,
                 p_predicted_start_date = np_predicted_start_date n,
                 p_confidence_score = np_confidence_score n,
                 p_prediction_method = np_prediction_method n,
                 p_based_on_cycles = np_based_on_cycles n,
                 p_notes = np_notes n,
                 p_is_active = True,
                 p_actual_start_date = None\<rparr>]))"

text \<open>
  Lines 132-147, one transaction that the commit of line 143 ends. The publish of lines
  146-147 contains every exception (lines 194, 217, 222, 247) and writes nothing to the
  database, so it is not part of this state.
\<close>

definition callback_prediction_step :: "analytics_db \<Rightarrow> int option \<Rightarrow> error + analytics_db" where
  "callback_prediction_step db user_id =
     (if 2 \<le> length (filter_by_user user_id (cycle_analytics_table db)) then
        (case predict_next_period (cycle_analytics_table db) user_id of
           Inl e \<Rightarrow> Inl e
         | Inr None \<Rightarrow> Inr db
         | Inr (Some prediction) \<Rightarrow>
             (case insert_prediction prediction
                     (deactivate_predictions user_id (predictions_table db)) of
                Inl e \<Rightarrow> Inl e
              | Inr ps \<Rightarrow> Inr (db\<lparr>predictions_table := ps\<rparr>)))
      else Inr db)"

text \<open>
  The \<open>try\<close> block of \<open>callback\<close>, lines 83-149: the committed database when the block
  is left, and the exception that left it, if any. The session belongs to the application
  context entered on line 88, and Flask-SQLAlchemy removes it when that context is left:
  what it has not committed by then is discarded. The handler itself never calls
  \<open>rollback\<close>. What line 130 has committed stays.
\<close>

definition handle_cycle_event :: "analytics_db \<Rightarrow> cycle_message option \<Rightarrow> analytics_db \<times> error option" where
  "handle_cycle_event db body =
     (case body of
        None \<Rightarrow> (db, Some JSONDecodeError)
      | Some m \<Rightarrow>
          (case process_cycle_analytics (cycle_analytics_table db) m of
             Inl e \<Rightarrow> (db, Some e)
           | Inr rows \<Rightarrow>
               (let db1 = db\<lparr>cycle_analytics_table := rows\<rparr>
                in case callback_prediction_step db1 (msg_user_id m) of
                     Inl e \<Rightarrow> (db1, Some e)
                   | Inr db2 \<Rightarrow> (db2, None))))"

text \<open>What a consumer tells the channel about a delivery: the tag, and for a nack \<open>requeue\<close>.\<close>

datatype settlement = BasicAck int | BasicNack int bool

text \<open>\<open>MessageConsumer.callback\<close> of the analytics service, lines 78-157.\<close>

definition analytics_callback :: "analytics_db \<Rightarrow> int \<Rightarrow> cycle_message option \<Rightarrow> analytics_db \<times> settlement" where
  "analytics_callback db delivery_tag body =
     (case handle_cycle_event db body of
        (db', None) \<Rightarrow> (db', BasicAck delivery_tag)
      | (db', Some e) \<Rightarrow> (db', BasicNack delivery_tag False))"

text \<open>
  The broker's side of a settlement, for a queue declared as on line 58 (durable, no
  dead-letter exchange): an acknowledged delivery and a rejected one without requeue leave
  the queue; a rejected one with requeue goes back to its place.
\<close>

definition settle :: "settlement \<Rightarrow> 'm \<Rightarrow> 'm list \<Rightarrow> 'm list" where
  "settle s m queue =
     (case s of
        BasicAck _ \<Rightarrow> queue
      | BasicNack _ requeue \<Rightarrow> (if requeue then m # queue else queue))"

text \<open>
  One delivery of \<open>start_consuming\<close> with \<open>prefetch_count=1\<close> (lines 159-169): the
  channel hands the head of the queue to the callback and the broker applies the
  settlement. The state is the database, the queue, and the bodies handed over so far.
\<close>

definition consume_step :: "('db \<Rightarrow> int \<Rightarrow> 'm \<Rightarrow> 'db \<times> settlement) \<Rightarrow> 'db \<times> 'm list \<times> 'm list \<Rightarrow> 'db \<times> 'm list \<times> 'm list" where
  "consume_step callback s =
     (case s of
        (db, queue, delivered) \<Rightarrow>
          (case queue of
             [] \<Rightarrow> s
           | body # rest \<Rightarrow>
               (case callback db (int (length delivered) + 1) body of
                  (db', settlement) \<Rightarrow>
                    (db', settle settlement body rest, delivered @ [body]))))"

section \<open>Analytics service: the callback with its session written out\<close>

text \<open>
  The same callback once more, now with what the functions above leave implicit: the work
  on \<open>cycle_analytics\<close> that the SQLAlchemy session holds and has not committed, the
  end of the session, and database statements that fail. A statement is named by its line
  in message_queue.py, and \<open>faults\<close> tells for each line whether the statement there
  raises OperationalError: 98, 117, 118 and 122 for the queries (each flushes the session
  first), 130 and 143 for the commits, 133 for the count, 134 for the queries of
  \<open>predict_next_period\<close>, 139 for the UPDATE, and 147 for \<open>prediction.to_dict()\<close>,
  which reloads the row that the commit has expired.

  The uncommitted work on \<open>cycle_analytics\<close>: nothing; or the object of lines 101-106,
  added to the session and not yet inserted, built from the message; or the table as the
  open transaction has it, which is not what the database holds for anyone else.
\<close>

datatype pending_analytics = Clean | Added cycle_message | Changed "cycle_analytics list"

text \<open>
  What is pending when lines 97-114 or the flush of the new object raise. On the path of
  an existing row the only raise is \<open>fromisoformat\<close> of line 110, before the
  assignment. On the path of a new row, line 104 raises before \<open>db.session.add\<close>;
  line 110 and the INSERT raise after it.
\<close>

definition pending_at_upsert :: "cycle_analytics list \<Rightarrow> cycle_message \<Rightarrow> pending_analytics" where
  "pending_at_upsert rows m =
     (case first_by_cycle_id (msg_cycle_id m) rows of
        Some i \<Rightarrow> Clean
      | None \<Rightarrow>
          (case fromisoformat_item (msg_start_date m) of
             Inl e \<Rightarrow> Clean
           | Inr start_date \<Rightarrow> Added m))"

text \<open>
  What is pending when the statement of line 117 fails, lines 97-114 done: the new object,
  or the existing row with the end date and period length of lines 110-114, if they were
  set.
\<close>

definition pending_at_flush :: "cycle_analytics list \<Rightarrow> cycle_analytics list \<Rightarrow> cycle_message \<Rightarrow> pending_analytics" where
  "pending_at_flush rows rows1 m =
     (case first_by_cycle_id (msg_cycle_id m) rows of
        Some i \<Rightarrow> (if rows1 = rows then Clean else Changed rows1)
      | None \<Rightarrow> Added m)"

text \<open>
  Lines 97-130 on the table \<open>rows\<close>: the table that line 130 commits, or the exception
  raised before the commit is through together with the work pending at that moment. A
  fault of line 118 meets a row that has its average and nothing else of lines 117-128;
  one of line 122 a row that has the three statistics and not yet its cycle length; one
  of line 130 the finished row.
\<close>

definition analytics_stage :: "(nat \<Rightarrow> bool) \<Rightarrow> cycle_analytics list \<Rightarrow> cycle_message \<Rightarrow> pending_analytics \<times> error + cycle_analytics list" where
  "analytics_stage faults rows m =
     (if faults 98 then Inl (Clean, OperationalError)
      else
        (case upsert_analytics rows m of
           Inl e \<Rightarrow> Inl (pending_at_upsert rows m, e)
         | Inr (rows1, i) \<Rightarrow>
             (let user_id = msg_user_id m;
                  average_cycle_length = calculate_average_cycle_length rows1 user_id;
                  cycle_variance = calculate_cycle_variance rows1 user_id;
                  a1 = (rows1 ! i)\<lparr>ca_average_cycle_length := Some average_cycle_length\<rparr>;
                  a2 = a1\<lparr>ca_cycle_variance := Some cycle_variance,
                          ca_is_regular := is_regular_of cycle_variance\<rparr>
              in if faults 117 then Inl (pending_at_flush rows rows1 m, OperationalError)
                 else if faults 118 then Inl (Changed (rows1[i := a1]), OperationalError)
                 else if faults 122 then Inl (Changed (rows1[i := a2]), OperationalError)
                 else if faults 130 then
                   Inl (Changed (refresh_analytics rows1 user_id i), OperationalError)
                 else Inr (refresh_analytics rows1 user_id i))))"

text \<open>
  Lines 132-147 on the database that line 130 has committed: the committed database when
  the block is left and the exception that left it, if any. Nothing here writes to
  \<open>cycle_analytics\<close>, and the UPDATE and the INSERT reach \<open>predictions\<close> only with
  the commit of line 143.
\<close>

definition prediction_stage :: "(nat \<Rightarrow> bool) \<Rightarrow> analytics_db \<Rightarrow> int option \<Rightarrow> analytics_db \<times> error option" where
  "prediction_stage faults db user_id =
     (if faults 133 then (db, Some OperationalError)
      else if 2 \<le> length (filter_by_user user_id (cycle_analytics_table db)) then
        (if faults 134 then (db, Some OperationalError)
         else
           (case predict_next_period (cycle_analytics_table db) user_id of
              Inl e \<Rightarrow> (db, Some e)
            | Inr None \<Rightarrow> (db, None)
            | Inr (Some prediction) \<Rightarrow>
                (if faults 139 \<or> faults 143 then (db, Some OperationalError)
                 else
                   (case insert_prediction prediction
                           (deactivate_predictions user_id (predictions_table db)) of
                      Inl e \<Rightarrow> (db, Some e)
                    | Inr ps \<Rightarrow>
                        (if faults 147 then (db\<lparr>predictions_table := ps\<rparr>, Some OperationalError)
                         else (db\<lparr>predictions_table := ps\<rparr>, None))))))
      else (db, None))"

text \<open>
  The body of \<open>with self.app.app_context()\<close>, lines 88-149: the committed database, the
  work on \<open>cycle_analytics\<close> that the session holds uncommitted when the block is left,
  and the exception that left it, if any.
\<close>

definition in_app_context :: "(nat \<Rightarrow> bool) \<Rightarrow> analytics_db \<Rightarrow> cycle_message \<Rightarrow> analytics_db \<times> pending_analytics \<times> error option" where
  "in_app_context faults db m =
     (case analytics_stage faults (cycle_analytics_table db) m of
        Inl (pending, e) \<Rightarrow> (db, pending, Some e)
      | Inr rows \<Rightarrow>
          (case prediction_stage faults (db\<lparr>cycle_analytics_table := rows\<rparr>) (msg_user_id m) of
             (db', raised) \<Rightarrow> (db', Clean, raised)))"

text \<open>
  What the callback does to the session and to the channel, in order. Leaving the
  application context, normally or by an exception, runs the teardown of Flask-SQLAlchemy,
  \<open>db.session.remove()\<close>: the session is closed and its open transaction rolled back,
  so the pending work it is given here is discarded. The \<open>except\<close> clause of lines
  154-157 comes after that; it calls no \<open>rollback\<close> of its own.
\<close>

datatype callback_effect = SessionRemoved pending_analytics | Settled settlement

text \<open>
  \<open>MessageConsumer.callback\<close>, lines 78-157, with the session: the database after the
  callback and its effects. Lines 84-85 raise before there is an application context.
\<close>

definition session_callback :: "(nat \<Rightarrow> bool) \<Rightarrow> analytics_db \<Rightarrow> int \<Rightarrow> cycle_message option \<Rightarrow> analytics_db \<times> callback_effect list" where
  "session_callback faults db delivery_tag body =
     (case body of
        None \<Rightarrow> (db, [Settled (BasicNack delivery_tag False)])
      | Some m \<Rightarrow>
          (case msg_event_type m of
             None \<Rightarrow> (db, [Settled (BasicNack delivery_tag False)])
           | Some _ \<Rightarrow>
               (case in_app_context faults db m of
                  (db', pending, None) \<Rightarrow>
                    (db', [SessionRemoved pending, Settled (BasicAck delivery_tag)])
                | (db', pending, Some e) \<Rightarrow>
                    (db', [SessionRemoved pending, Settled (BasicNack delivery_tag False)]))))"

text \<open>No statement fails.\<close>

definition no_faults :: "nat \<Rightarrow> bool" where
  "no_faults line = False"

section \<open>Analytics service: the route that generates a prediction, and sessions that overlap\<close>


text \<open>
  The consumer runs in a thread of its own (\<open>start_consumer\<close>, lines 256-262) beside
  the threads that serve requests, and every thread has a session and a database
  connection of its own. The database is PostgreSQL (config.py line 17) at its default
  isolation level, READ COMMITTED: a statement sees what is committed when it runs and
  what its own transaction has written; the rows that an UPDATE changes are locked until
  its transaction ends; nothing the code does takes a lock on a user or on the table, and
  \<open>predictions\<close> has no unique index on active rows.

  A session that is about to write a prediction is in one of three phases: it holds no
  transaction; it has computed the prediction for a user (lines 133-136 of the callback,
  lines 61-73 of the route); or it has also run the UPDATE of lines 139-140 (76-77 of the
  route), which has changed the rows at these positions of \<open>predictions\<close>, not yet
  visible to any other session. Rows are never deleted and new ones are appended, so a
  position names the same row for every session.
\<close>

datatype phase =
    Idle
  | Predicted "int option" new_prediction
  | Updated "int option" new_prediction "nat list"

record service =
  committed :: analytics_db
  sessions :: "phase list"

text \<open>
  What a session does next: the consumer's session is handed a delivery and runs lines
  84-136; a request session runs lines 61-73 of \<open>generate_prediction\<close>; a session runs
  its UPDATE; a session runs \<open>db.session.add\<close> and \<open>db.session.commit\<close>. Each is
  taken as one step, so that what a session reads within it comes from one committed
  state: the schedules of the model are some of the schedules of the service, not all.
\<close>

datatype event =
    Deliver nat "cycle_message option"
  | Request nat int
  | Update nat
  | Commit nat

definition session_of :: "event \<Rightarrow> nat" where
  "session_of e = (case e of Deliver k _ \<Rightarrow> k | Request k _ \<Rightarrow> k | Update k \<Rightarrow> k | Commit k \<Rightarrow> k)"

text \<open>
  Lines 133-136 of the callback and lines 61-73 of the route: with fewer than two rows of
  the user, or with no prediction (an exception or \<open>None\<close>), the session writes nothing.
\<close>

definition begin_prediction :: "analytics_db \<Rightarrow> int option \<Rightarrow> phase" where
  "begin_prediction db user_id =
     (if 2 \<le> length (filter_by_user user_id (cycle_analytics_table db)) then
        (case predict_next_period (cycle_analytics_table db) user_id of
           Inl e \<Rightarrow> Idle
         | Inr None \<Rightarrow> Idle
         | Inr (Some prediction) \<Rightarrow> Predicted user_id prediction)
      else Idle)"

text \<open>
  Lines 84-136 of the callback: the database with what line 130 commits, and the phase
  of the session.
\<close>

definition deliver :: "analytics_db \<Rightarrow> cycle_message option \<Rightarrow> analytics_db \<times> phase" where
  "deliver db body =
     (case body of
        None \<Rightarrow> (db, Idle)
      | Some m \<Rightarrow>
          (case process_cycle_analytics (cycle_analytics_table db) m of
             Inl e \<Rightarrow> (db, Idle)
           | Inr rows \<Rightarrow>
               (db\<lparr>cycle_analytics_table := rows\<rparr>,
                begin_prediction (db\<lparr>cycle_analytics_table := rows\<rparr>) (msg_user_id m))))"

text \<open>
  The rows that \<open>filter_by(user_id=user_id, is_active=True)\<close> matches in the committed
  table, by position; the rows that the sessions other than \<open>k\<close> have locked; and the
  table with the rows at some positions deactivated.
\<close>

definition matched_rows :: "int option \<Rightarrow> prediction list \<Rightarrow> nat list" where
  "matched_rows user_id ps =
     filter (\<lambda>i. Some (p_user_id (ps ! i)) = user_id \<and> p_is_active (ps ! i)) [0..<length ps]"

definition locked_rows :: "phase list \<Rightarrow> nat \<Rightarrow> nat list" where
  "locked_rows ss k =
     concat (map (\<lambda>j. case ss ! j of Updated _ _ rows \<Rightarrow> rows | _ \<Rightarrow> [])
               (filter (\<lambda>j. j \<noteq> k) [0..<length ss]))"

definition deactivate_rows :: "nat list \<Rightarrow> prediction list \<Rightarrow> prediction list" where
  "deactivate_rows rows ps =
     map (\<lambda>i. if i \<in> set rows then (ps ! i)\<lparr>p_is_active := False\<rparr> else ps ! i) [0..<length ps]"

text \<open>
  One step of the service, \<open>None\<close> when the session cannot take it: it is not in the
  phase for it, or its UPDATE matches a row that another session has locked and has to
  wait. A commit that fails (\<open>user_id\<close> is NOT NULL) leaves the database as it is; the
  callback then drops its session and the route rolls back.
\<close>

definition step :: "service \<Rightarrow> event \<Rightarrow> service option" where
  "step s e =
     (if session_of e < length (sessions s) then
        (case (e, sessions s ! session_of e) of
           (Deliver k body, Idle) \<Rightarrow>
             (case deliver (committed s) body of
                (db, ph) \<Rightarrow> Some \<lparr>committed = db, sessions = (sessions s)[k := ph]\<rparr>)
         | (Request k user_id, Idle) \<Rightarrow>
             Some (s\<lparr>sessions := (sessions s)[k := begin_prediction (committed s) (Some user_id)]\<rparr>)
         | (Update k, Predicted user_id prediction) \<Rightarrow>
             (let rows = matched_rows user_id (predictions_table (committed s))
              in if set rows \<inter> set (locked_rows (sessions s) k) = {} then
                   Some (s\<lparr>sessions := (sessions s)[k := Updated user_id prediction rows]\<rparr>)
                 else None)
         | (Commit k, Updated user_id prediction rows) \<Rightarrow>
             (case insert_prediction prediction
                     (deactivate_rows rows (predictions_table (committed s))) of
                Inl e \<Rightarrow> Some (s\<lparr>sessions := (sessions s)[k := Idle]\<rparr>)
              | Inr ps \<Rightarrow>
                  Some \<lparr>committed = (committed s)\<lparr>predictions_table := ps\<rparr>,
                        sessions = (sessions s)[k := Idle]\<rparr>)
         | _ \<Rightarrow> None)
      else None)"






section \<open>Notification service (models.py, notification_manager.py, message_queue.py)\<close>

text \<open>
  A row of \<open>notification_preferences\<close>. \<open>period_reminder_enabled\<close> is nullable and
  \<open>update_preferences\<close> stores whatever the request holds, so it may be NULL, which
  Python's \<open>not\<close> reads as disabled. \<open>reminder_days_before\<close> is written only by the
  column default and, after the comparison with 1 and 7, by \<open>update_preferences\<close>, so it
  always holds an integer. The timestamps are left out.
\<close>

record notification_preference =
  pref_id :: int
  pref_user_id :: int
  pref_period_reminder_enabled :: "bool option"
  pref_reminder_days_before :: int
  pref_email_enabled :: "bool option"
  pref_push_enabled :: "bool option"

text \<open>
  A row of \<open>notifications\<close>. The display text \<open>message\<close>, which spells the month of the
  predicted day, and the timestamps are left out.
\<close>

record notification =
  n_id :: int
  n_user_id :: int
  n_prediction_id :: "int option"
  n_notification_type :: string
  n_title :: string
  n_scheduled_for :: date
  n_status :: string
  n_error_message :: "string option"

record notification_db =
  preferences_table :: "notification_preference list"
  notifications_table :: "notification list"

text \<open>
  The body of a delivery on \<open>notification_prediction_queue\<close> after \<open>json.loads\<close>, read
  as \<open>cycle_message\<close> is.
\<close>

record prediction_message =
  pm_event_type :: "string option"
  pm_user_id :: "int option"
  pm_prediction_id :: "int option"
  pm_predicted_start_date :: iso_field

text \<open>
  \<open>datetime.fromisoformat(doc.get(key))\<close>: a missing key gives None, which
  \<open>fromisoformat\<close> refuses with TypeError.
\<close>

definition fromisoformat_get :: "iso_field \<Rightarrow> error + date" where
  "fromisoformat_get f =
     (case f of
        Absent \<Rightarrow> Inl TypeError
      | Null \<Rightarrow> Inl TypeError
      | Malformed \<Rightarrow> Inl ValueError
      | Iso d \<Rightarrow> (if is_date d then Inr d else Inl ValueError))"

text \<open>
  Lines 27-33 of notification_manager.py: the user's preferences, created with the column
  defaults and committed when there are none. \<open>user_id\<close> is NOT NULL.
\<close>

definition load_preferences :: "notification_db \<Rightarrow> int option \<Rightarrow> error + notification_db \<times> notification_preference" where
  "load_preferences db user_id =
     (case find (\<lambda>p. Some (pref_user_id p) = user_id) (preferences_table db) of
        Some preferences \<Rightarrow> Inr (db, preferences)
      | None \<Rightarrow>
          (case user_id of
             None \<Rightarrow> Inl IntegrityError
           | Some u \<Rightarrow>
               (let preferences =
                      \<lparr>pref_id = fresh_id (map pref_id (preferences_table db)),
                       pref_user_id = u,
                       pref_period_reminder_enabled = Some True,
                       pref_reminder_days_before = 3,
                       pref_email_enabled = Some True,
                       pref_push_enabled = Some False\<rparr>
                in Inr (db\<lparr>preferences_table := preferences_table db @ [preferences]\<rparr>,
                        preferences))))"

text \<open>
  Lines 41-42: \<open>datetime.fromisoformat(predicted_date) -
  timedelta(days=preferences.reminder_days_before)\<close>, then \<open>.date()\<close>.
\<close>

definition reminder_date :: "iso_field \<Rightarrow> int \<Rightarrow> error + date" where
  "reminder_date predicted_date reminder_days_before =
     (case fromisoformat_get predicted_date of
        Inl e \<Rightarrow> Inl e
      | Inr predicted \<Rightarrow>
          (case timedelta reminder_days_before of
             Inl e \<Rightarrow> Inl e
           | Inr days \<Rightarrow> date_add predicted (- days)))"

text \<open>
  \<open>NotificationManager.create_period_reminder\<close>, lines 19-65. Every exception is caught
  on line 62: the session is rolled back, which keeps what line 33 has committed, and the
  result is None.
\<close>

definition create_period_reminder :: "notification_db \<Rightarrow> int option \<Rightarrow> int option \<Rightarrow> iso_field \<Rightarrow> notification_db \<times> notification option" where
  "create_period_reminder db user_id prediction_id predicted_date =
     (case load_preferences db user_id of
        Inl e \<Rightarrow> (db, None)
      | Inr (db1, preferences) \<Rightarrow>
          (if pref_period_reminder_enabled preferences \<noteq> Some True then (db1, None)
           else
             (case reminder_date predicted_date (pref_reminder_days_before preferences) of
                Inl e \<Rightarrow> (db1, None)
              | Inr scheduled \<Rightarrow>
                  (case user_id of
                     None \<Rightarrow> (db1, None)
                   | Some u \<Rightarrow>
                       (let notification =
                              \<lparr>n_id = fresh_id (map n_id (notifications_table db1)),
                               n_user_id = u,
                               n_prediction_id = prediction_id,
                               n_notification_type = ''period_reminder'',
                               n_title = ''Period Reminder'',
                               n_scheduled_for = scheduled,
                               n_status = ''pending'',
                               n_error_message = None\<rparr>
                        in (db1\<lparr>notifications_table := notifications_table db1 @ [notification]\<rparr>,
                            Some notification))))))"

text \<open>The \<open>try\<close> block of the notification consumer's \<open>callback\<close>, lines 82-104.\<close>

definition handle_prediction_event :: "notification_db \<Rightarrow> prediction_message option \<Rightarrow> notification_db \<times> error option" where
  "handle_prediction_event db body =
     (case body of
        None \<Rightarrow> (db, Some JSONDecodeError)
      | Some m \<Rightarrow>
          (case pm_event_type m of
             None \<Rightarrow> (db, Some KeyError)
           | Some _ \<Rightarrow>
               (fst (create_period_reminder db (pm_user_id m) (pm_prediction_id m)
                       (pm_predicted_start_date m)),
                None)))"

text \<open>\<open>MessageConsumer.callback\<close> of the notification service, lines 77-112.\<close>

definition notification_callback :: "notification_db \<Rightarrow> int \<Rightarrow> prediction_message option \<Rightarrow> notification_db \<times> settlement" where
  "notification_callback db delivery_tag body =
     (case handle_prediction_event db body of
        (db', None) \<Rightarrow> (db', BasicAck delivery_tag)
      | (db', Some e) \<Rightarrow> (db', BasicNack delivery_tag False))"

section \<open>Connecting to the broker (the \<open>_connect\<close> methods)\<close>

text \<open>
  What a \<open>_connect\<close> call does that can be observed from outside: its connection
  attempts and its sleeps, in order. The broker is a function that tells, for the \<open>n\<close>-th
  attempt of a call, whether the whole \<open>try\<close> body (connection, channel, declarations)
  goes through.
\<close>

datatype io_event = Attempt nat | Sleep nat

text \<open>
  The loop \<open>for attempt in range(max_retries)\<close> from \<open>attempt\<close> on, as it stands in
  cycle-tracking-service/message_queue.py lines 33-66, analytics-service/message_queue.py
  lines 33-76 and notification-service/message_queue.py lines 32-75. The result is the
  trace and the exception the call raises, if any.
\<close>

function connect_from :: "(nat \<Rightarrow> bool) \<Rightarrow> nat \<Rightarrow> nat \<Rightarrow> nat \<Rightarrow> io_event list \<times> error option" where
  "connect_from broker max_retries retry_delay attempt =
     (if attempt < max_retries then
        (if broker attempt then ([Attempt attempt], None)
         else if attempt < max_retries - 1 then
           (case connect_from broker max_retries retry_delay (attempt + 1) of
              (events, raised) \<Rightarrow> (Attempt attempt # Sleep retry_delay # events, raised))
         else ([Attempt attempt], Some AMQPConnectionError))
      else ([], None))"
  by pat_completeness auto
termination
  by (relation "measure (\<lambda>(broker, max_retries, retry_delay, attempt). max_retries - attempt)") auto

declare connect_from.simps [simp del]

text \<open>\<open>MessagePublisher._connect\<close> of the cycle-tracking service, lines 25-66.\<close>

definition cycle_publisher_connect :: "(nat \<Rightarrow> bool) \<Rightarrow> io_event list \<times> error option" where
  "cycle_publisher_connect broker = connect_from broker 5 5 0"

text \<open>\<open>MessageConsumer._connect\<close> of the analytics service, lines 28-76.\<close>

definition analytics_consumer_connect :: "(nat \<Rightarrow> bool) \<Rightarrow> io_event list \<times> error option" where
  "analytics_consumer_connect broker = connect_from broker 5 5 0"

text \<open>\<open>MessageConsumer._connect\<close> of the notification service, lines 27-75.\<close>

definition notification_consumer_connect :: "(nat \<Rightarrow> bool) \<Rightarrow> io_event list \<times> error option" where
  "notification_consumer_connect broker = connect_from broker 5 5 0"

text \<open>
  \<open>MessagePublisher._connect\<close> of the analytics service, lines 192-218: one attempt in
  a \<open>try\<close> whose \<open>except\<close> logs the failure and returns.
\<close>

definition analytics_publisher_connect :: "(nat \<Rightarrow> bool) \<Rightarrow> io_event list \<times> error option" where
  "analytics_publisher_connect broker = ([Attempt 0], None)"

text \<open>
  The caller of the notification consumer's connect. \<open>start_consumer\<close>
  (notification-service/message_queue.py lines 136-142) builds the consumer, whose
  constructor connects, and starts its thread only when the constructor has returned.
  \<open>create_app\<close> (notification-service/app.py lines 20-45) calls it inside
  \<open>try ... except Exception\<close> (lines 37-41), logs what it raises and returns the
  application all the same. The result is the trace, and either the exception that
  \<open>create_app\<close> raises or, when it returns the application, whether the consumer
  thread has been started.
\<close>

definition notification_start_consumer :: "(nat \<Rightarrow> bool) \<Rightarrow> io_event list \<times> error option" where
  "notification_start_consumer broker = notification_consumer_connect broker"

definition notification_create_app :: "(nat \<Rightarrow> bool) \<Rightarrow> io_event list \<times> (error + bool)" where
  "notification_create_app broker =
     (case notification_start_consumer broker of
        (events, None) \<Rightarrow> (events, Inr True)
      | (events, Some e) \<Rightarrow> (events, Inr False))"

text \<open>The attempts and the sleeps of a trace.\<close>

definition attempts :: "io_event list \<Rightarrow> nat list" where
  "attempts events = concat (map (\<lambda>e. case e of Attempt n \<Rightarrow> [n] | Sleep _ \<Rightarrow> []) events)"

definition sleeps :: "io_event list \<Rightarrow> nat list" where
  "sleeps events = concat (map (\<lambda>e. case e of Attempt _ \<Rightarrow> [] | Sleep s \<Rightarrow> [s]) events)"

section \<open>Cycle-tracking service (models.py, message_queue.py, routes.py)\<close>

text \<open>A row of \<open>cycles\<close> and a row of \<open>symptoms\<close>, without their timestamps.\<close>

record cycle =
  c_id :: int
  c_user_id :: int
  c_start_date :: date
  c_end_date :: "date option"
  c_cycle_length :: "int option"
  c_period_length :: "int option"

record symptom =
  s_id :: int
  s_cycle_id :: int
  s_user_id :: int
  s_date :: date
  s_symptom_type :: string
  s_value :: string
  s_severity :: "int option"
  s_notes :: "string option"

text \<open>
  The state of the service: the committed tables, the module's global \<open>publisher\<close>
  (whether it has been created), and the events that reached the exchange
  \<open>cycle_events\<close>, each the snapshot \<open>cycle.to_dict()\<close> of a row with its symptoms.
\<close>

record tracking_state =
  cycles_table :: "cycle list"
  symptoms_table :: "symptom list"
  publisher_created :: bool
  exchange :: "(cycle \<times> symptom list) list"

text \<open>
  The broker as a request meets it: the outcome of each connection attempt of a
  \<open>_connect\<close> call, whether the connection of an existing publisher has been closed in
  the meantime, and whether \<open>basic_publish\<close> raises.
\<close>

record broker_env =
  reachable :: "nat \<Rightarrow> bool"
  connection_closed :: bool
  publish_raises :: bool

text \<open>
  \<open>get_publisher()\<close>, lines 114-119: the global is assigned only when the constructor,
  which calls \<open>_connect\<close>, returns.
\<close>

definition get_publisher :: "tracking_state \<Rightarrow> broker_env \<Rightarrow> error + tracking_state \<times> bool" where
  "get_publisher st env =
     (if publisher_created st then Inr (st, connection_closed env)
      else
        (case snd (cycle_publisher_connect (reachable env)) of
           Some e \<Rightarrow> Inl e
         | None \<Rightarrow> Inr (st\<lparr>publisher_created := True\<rparr>, False)))"

text \<open>
  \<open>publish_cycle_event\<close>, lines 68-101, on a publisher whose connection is closed or
  not: it reconnects when closed, publishes, and contains every exception (line 99).
\<close>

definition publish_cycle_event :: "tracking_state \<Rightarrow> broker_env \<Rightarrow> bool \<Rightarrow> cycle \<times> symptom list \<Rightarrow> tracking_state" where
  "publish_cycle_event st env is_closed cycle_data =
     (case (if is_closed then snd (cycle_publisher_connect (reachable env)) else None) of
        Some e \<Rightarrow> st
      | None \<Rightarrow>
          (if publish_raises env then st
           else st\<lparr>exchange := exchange st @ [cycle_data]\<rparr>))"

text \<open>
  The inner \<open>try\<close> of the three routes (lines 51-56, 142-146 and 197-201 of routes.py):
  \<open>get_publisher()\<close>, then \<open>publish_cycle_event(cycle.to_dict())\<close>, every exception
  logged and dropped.
\<close>

definition try_publish :: "tracking_state \<Rightarrow> broker_env \<Rightarrow> cycle \<Rightarrow> tracking_state" where
  "try_publish st env c =
     (case get_publisher st env of
        Inl e \<Rightarrow> st
      | Inr (st1, is_closed) \<Rightarrow>
          publish_cycle_event st1 env is_closed
            (c, filter (\<lambda>s. s_cycle_id s = c_id c) (symptoms_table st1)))"

text \<open>
  The JSON body of \<open>POST /cycles\<close>; \<open>None\<close> of type \<open>cycle_request option\<close> is a body
  that \<open>request.get_json()\<close> does not turn into a dictionary.
\<close>

record cycle_request =
  req_start_date :: iso_field
  req_end_date :: iso_field

text \<open>
  \<open>create_cycle\<close>, lines 26-68: the HTTP status and the state after the request.
  \<open>user_id\<close> is the subject of the verified token.
\<close>

definition create_cycle :: "tracking_state \<Rightarrow> broker_env \<Rightarrow> int \<Rightarrow> cycle_request option \<Rightarrow> nat \<times> tracking_state" where
  "create_cycle st env user_id body =
     (case body of
        None \<Rightarrow> (500, st)
      | Some data \<Rightarrow>
          (if req_start_date data = Absent then (400, st)
           else
             (case fromisoformat_item (req_start_date data) of
                Inl e \<Rightarrow> (500, st)
              | Inr start_date \<Rightarrow>
                  (case parse_end_date (req_end_date data) start_date of
                     Inl e \<Rightarrow> (500, st)
                   | Inr ended \<Rightarrow>
                       (let c = \<lparr>c_id = fresh_id (map c_id (cycles_table st)),
                                  c_user_id = user_id,
                                  c_start_date = start_date,
                                  c_end_date = map_option fst ended,
                                  c_cycle_length = None,
                                  c_period_length = None\<rparr>;
                            st1 = st\<lparr>cycles_table := cycles_table st @ [c]\<rparr>
                        in (201, try_publish st1 env c))))))"

text \<open>
  \<open>Cycle.query.filter_by(id=cycle_id, user_id=user_id).first()\<close>, lines 124 and 178.
\<close>

definition find_cycle :: "int \<Rightarrow> int \<Rightarrow> cycle list \<Rightarrow> nat option" where
  "find_cycle cycle_id user_id rows =
     first_index (\<lambda>c. c_id c = cycle_id \<and> c_user_id c = user_id) rows"

text \<open>
  \<open>update_cycle\<close>, lines 116-158. The body holds at most the key \<open>end_date\<close>, which the
  route subscripts when it is present.
\<close>

definition update_cycle :: "tracking_state \<Rightarrow> broker_env \<Rightarrow> int \<Rightarrow> int \<Rightarrow> iso_field option \<Rightarrow> nat \<times> tracking_state" where
  "update_cycle st env user_id cycle_id body =
     (case find_cycle cycle_id user_id (cycles_table st) of
        None \<Rightarrow> (404, st)
      | Some i \<Rightarrow>
          (case body of
             None \<Rightarrow> (500, st)
           | Some end_date \<Rightarrow>
               (let c = cycles_table st ! i in
                if end_date = Absent then (200, try_publish st env c)
                else
                  (case fromisoformat_item end_date of
                     Inl e \<Rightarrow> (500, st)
                   | Inr d \<Rightarrow>
                       (let c1 = c\<lparr>c_end_date := Some d,
                                    c_period_length := Some (d - c_start_date c + 1)\<rparr>;
                            st1 = st\<lparr>cycles_table := (cycles_table st)[i := c1]\<rparr>
                        in (200, try_publish st1 env c1))))))"

text \<open>
  The JSON body of \<open>POST /symptoms\<close>: \<open>None\<close> in a required field means the key is
  missing; a key that is present with a null value is not modelled.
\<close>

record symptom_request =
  sreq_cycle_id :: "int option"
  sreq_date :: iso_field
  sreq_symptom_type :: "string option"
  sreq_value :: "string option"
  sreq_severity :: "int option"
  sreq_notes :: "string option"

text \<open>\<open>create_symptom\<close>, lines 161-213.\<close>

definition create_symptom :: "tracking_state \<Rightarrow> broker_env \<Rightarrow> int \<Rightarrow> symptom_request option \<Rightarrow> nat \<times> tracking_state" where
  "create_symptom st env user_id body =
     (case body of
        None \<Rightarrow> (500, st)
      | Some data \<Rightarrow>
          (case (sreq_cycle_id data, sreq_symptom_type data, sreq_value data) of
             (Some cycle_id, Some symptom_type, Some val) \<Rightarrow>
               (if sreq_date data = Absent then (400, st)
                else
                  (case find_cycle cycle_id user_id (cycles_table st) of
                     None \<Rightarrow> (404, st)
                   | Some i \<Rightarrow>
                       (case fromisoformat_item (sreq_date data) of
                          Inl e \<Rightarrow> (500, st)
                        | Inr d \<Rightarrow>
                            (let s = \<lparr>s_id = fresh_id (map s_id (symptoms_table st)),
                                       s_cycle_id = cycle_id,
                                       s_user_id = user_id,
                                       s_date = d,
                                       s_symptom_type = symptom_type,
                                       s_value = val,
                                       s_severity = sreq_severity data,
                                       s_notes = sreq_notes data\<rparr>;
                                 st1 = st\<lparr>symptoms_table := symptoms_table st @ [s]\<rparr>
                             in (201, try_publish st1 env (cycles_table st ! i))))))
           | _ \<Rightarrow> (400, st)))"

section \<open>Reference notions the statements below compare the code with\<close>

text \<open>
  The ordinal of a calendar day, as \<open>date(year, month, day).toordinal()\<close> computes it;
  it is used to read the sample dates below.
\<close>

definition is_leap :: "int \<Rightarrow> bool" where
  "is_leap year = (year mod 4 = 0 \<and> (year mod 100 \<noteq> 0 \<or> year mod 400 = 0))"

definition days_before_year :: "int \<Rightarrow> int" where
  "days_before_year year =
     (year - 1) * 365 + (year - 1) div 4 - (year - 1) div 100 + (year - 1) div 400"

definition days_before_month :: "int \<Rightarrow> nat \<Rightarrow> int" where
  "days_before_month year month =
     sum_list (take (month - 1) [31, 28, 31, 30, 31, 30, 31, 31, 30, 31, 30, 31])
       + (if 2 < month \<and> is_leap year then 1 else 0)"

definition ymd :: "int \<Rightarrow> nat \<Rightarrow> int \<Rightarrow> date" where
  "ymd year month day = days_before_year year + days_before_month year month + day"

text \<open>The arithmetic mean of a list of integer samples.\<close>

definition arithmetic_mean :: "int list \<Rightarrow> real" where
  "arithmetic_mean xs = of_int (sum_list xs) / of_nat (length xs)"

text \<open>The most recent start date among a user's rows.\<close>

definition most_recent_start_date :: "cycle_analytics list \<Rightarrow> int option \<Rightarrow> date" where
  "most_recent_start_date rows user_id =
     Max (set (map ca_start_date (filter_by_user user_id rows)))"

text \<open>
  The columns of a \<open>cycle_analytics\<close> row that describe the cycle itself; the other three
  (\<open>average_cycle_length\<close>, \<open>cycle_variance\<close>, \<open>is_regular\<close>) are statistics of the
  user's history.
\<close>

definition stable_columns :: "cycle_analytics \<Rightarrow> int \<times> int \<times> int \<times> date \<times> date option \<times> int option \<times> int option" where
  "stable_columns a =
     (ca_id a, ca_user_id a, ca_cycle_id a, ca_start_date a, ca_end_date a,
      ca_cycle_length a, ca_period_length a)"

text \<open>What the query for the previous cycle reads of a row, and the start dates it selects.\<close>

definition user_and_start :: "cycle_analytics \<Rightarrow> int \<times> date" where
  "user_and_start a = (ca_user_id a, ca_start_date a)"

definition earlier_starts :: "(int \<times> date) list \<Rightarrow> int option \<Rightarrow> date \<Rightarrow> date set" where
  "earlier_starts keys u s = {d. \<exists>k \<in> set keys. Some (fst k) = u \<and> snd k = d \<and> d < s}"


text \<open>
  The trace of a connect whose first \<open>k\<close> attempts fail, each followed by a sleep of
  \<open>delay\<close> seconds, and whose attempt \<open>k\<close> is the last.
\<close>

definition retry_trace :: "nat \<Rightarrow> nat \<Rightarrow> io_event list" where
  "retry_trace delay k = concat (map (\<lambda>i. [Attempt i, Sleep delay]) [0..<k]) @ [Attempt k]"

section \<open>Sample data\<close>

definition analytics_row :: "int \<Rightarrow> int \<Rightarrow> int \<Rightarrow> date \<Rightarrow> int option \<Rightarrow> cycle_analytics" where
  "analytics_row i u c s l =
     \<lparr>ca_id = i, ca_user_id = u, ca_cycle_id = c, ca_start_date = s, ca_end_date = None,
      ca_cycle_length = l, ca_period_length = None, ca_is_regular = None,
      ca_average_cycle_length = None, ca_cycle_variance = None\<rparr>"

text \<open>
  User 1 with cycles starting 2024-01-01, 2024-01-30, 2024-02-27 and 2024-03-27, of lengths
  29, 28 and 29 days.
\<close>

definition history_four :: "cycle_analytics list" where
  "history_four =
     [analytics_row 1 1 1 738886 None, analytics_row 2 1 2 738915 (Some 29),
      analytics_row 3 1 3 738943 (Some 28), analytics_row 4 1 4 738972 (Some 29)]"

text \<open>
  User 1 with eight cycles, seven of them with a length, stored out of date order, and one
  row of user 2 in between.
\<close>

definition history_eight :: "cycle_analytics list" where
  "history_eight =
     [analytics_row 1 1 1 100 None, analytics_row 2 1 2 140 (Some 40),
      analytics_row 3 1 3 170 (Some 30), analytics_row 4 2 4 500 (Some 99),
      analytics_row 5 1 5 285 (Some 29), analytics_row 6 1 6 198 (Some 28),
      analytics_row 7 1 7 227 (Some 29), analytics_row 8 1 8 256 (Some 29),
      analytics_row 9 1 9 313 (Some 28)]"

text \<open>A cycle event as the cycle-tracking service publishes it.\<close>

definition cycle_event :: "int \<Rightarrow> int \<Rightarrow> date \<Rightarrow> iso_field \<Rightarrow> cycle_message" where
  "cycle_event u c s e =
     \<lparr>msg_event_type = Some ''new_cycle_data'', msg_user_id = Some u, msg_cycle_id = Some c,
      msg_start_date = Iso s, msg_end_date = e\<rparr>"

definition empty_analytics_db :: analytics_db where
  "empty_analytics_db = \<lparr>cycle_analytics_table = [], predictions_table = []\<rparr>"

text \<open>Cycles of user 1 starting 2024-01-01, 2024-01-29 and 2024-02-28.\<close>

definition first_cycle :: cycle_message where
  "first_cycle = cycle_event 1 1 738886 Null"


definition third_cycle :: cycle_message where
  "third_cycle = cycle_event 1 3 738944 Null"

definition history_two :: "cycle_analytics list" where
  "history_two = [analytics_row 1 1 1 738886 None, analytics_row 2 1 2 738914 (Some 28)]"

definition two_cycles_db :: analytics_db where
  "two_cycles_db = \<lparr>cycle_analytics_table = history_two, predictions_table = []\<rparr>"

text \<open>The third cycle as its first and as its second processing leave it.\<close>

definition third_row_once :: cycle_analytics where
  "third_row_once =
     (analytics_row 3 1 3 738944 (Some 30))
       \<lparr>ca_is_regular := None, ca_average_cycle_length := Some 28, ca_cycle_variance := Some 0\<rparr>"

definition third_row_twice :: cycle_analytics where
  "third_row_twice =
     (analytics_row 3 1 3 738944 (Some 30))
       \<lparr>ca_is_regular := Some True, ca_average_cycle_length := Some 29,
        ca_cycle_variance := Some 1\<rparr>"

text \<open>
  A user whose first cycle starts on 9999-12-01, and the event of a second cycle starting
  on 9999-12-30, 29 days later.
\<close>

definition late_db :: analytics_db where
  "late_db = \<lparr>cycle_analytics_table = [analytics_row 1 1 1 3652029 None],
              predictions_table = []\<rparr>"

definition late_cycle :: cycle_message where
  "late_cycle = cycle_event 1 2 3652058 Null"

definition late_row :: cycle_analytics where
  "late_row =
     (analytics_row 2 1 2 3652058 (Some 29))
       \<lparr>ca_is_regular := None, ca_average_cycle_length := Some 28, ca_cycle_variance := Some 0\<rparr>"





text \<open>
  The event of the third cycle with an end date that is no ISO date; the row of the third
  cycle as a fault of line 122 meets it, with its statistics and without its cycle length;
  and the fault of one line.
\<close>

definition third_cycle_bad_end :: cycle_message where
  "third_cycle_bad_end = cycle_event 1 3 738944 Malformed"

definition third_row_half :: cycle_analytics where
  "third_row_half =
     (analytics_row 3 1 3 738944 None)
       \<lparr>ca_is_regular := None, ca_average_cycle_length := Some 28, ca_cycle_variance := Some 0\<rparr>"

definition fault_at :: "nat \<Rightarrow> nat \<Rightarrow> bool" where
  "fault_at line l = (l = line)"

text \<open>
  A prediction event as the analytics service publishes it, a notification database with
  no rows, and one in which user 1 has switched the reminders off.
\<close>

definition prediction_event :: "int \<Rightarrow> int \<Rightarrow> date \<Rightarrow> prediction_message" where
  "prediction_event u p d =
     \<lparr>pm_event_type = Some ''new_prediction'', pm_user_id = Some u, pm_prediction_id = Some p,
      pm_predicted_start_date = Iso d\<rparr>"

definition empty_notification_db :: notification_db where
  "empty_notification_db = \<lparr>preferences_table = [], notifications_table = []\<rparr>"

definition default_preferences :: notification_preference where
  "default_preferences =
     \<lparr>pref_id = 1, pref_user_id = 1, pref_period_reminder_enabled = Some True,
      pref_reminder_days_before = 3, pref_email_enabled = Some True,
      pref_push_enabled = Some False\<rparr>"

definition reminders_off_db :: notification_db where
  "reminders_off_db =
     \<lparr>preferences_table = [default_preferences\<lparr>pref_period_reminder_enabled := Some False\<rparr>],
      notifications_table = []\<rparr>"

text \<open>A broker that cannot be reached and one that works, and a first request.\<close>

definition broker_down :: broker_env where
  "broker_down = \<lparr>reachable = (\<lambda>n. False), connection_closed = True, publish_raises = True\<rparr>"

definition broker_up :: broker_env where
  "broker_up = \<lparr>reachable = (\<lambda>n. True), connection_closed = False, publish_raises = False\<rparr>"

definition empty_tracking_state :: tracking_state where
  "empty_tracking_state =
     \<lparr>cycles_table = [], symptoms_table = [], publisher_created = False, exchange = []\<rparr>"

definition new_cycle_request :: cycle_request where
  "new_cycle_request = \<lparr>req_start_date = Iso 738886, req_end_date = Absent\<rparr>"

definition new_cycle_row :: cycle where
  "new_cycle_row =
     \<lparr>c_id = 1, c_user_id = 7, c_start_date = 738886, c_end_date = None,
      c_cycle_length = None, c_period_length = None\<rparr>"

section \<open>The sample dates\<close>

lemma sample_dates:
  "ymd 1 1 1 = MINORDINAL" "ymd 9999 12 31 = MAXORDINAL"
  "ymd 2024 1 1 = 738886" "ymd 2024 1 29 = 738914" "ymd 2024 1 30 = 738915"
  "ymd 2024 2 26 = 738942" "ymd 2024 2 27 = 738943" "ymd 2024 2 28 = 738944"
  "ymd 2024 3 1 = 738946" "ymd 2024 3 27 = 738972" "ymd 2024 3 28 = 738973"
  "ymd 2024 4 24 = 739000" "ymd 2024 4 25 = 739001"
  "ymd 9999 12 1 = 3652029" "ymd 9999 12 30 = 3652058"
  by (simp_all add: ymd_def days_before_year_def days_before_month_def is_leap_def
      MINORDINAL_def MAXORDINAL_def)

section \<open>Facts about the queries\<close>

lemmas query_defs = recent_with_length_def with_length_def filter_by_user_def
  order_by_start_date_desc_def default_limit_def cycle_lengths_def List.map_filter_def

lemma sorted_take_drop_le:
  assumes "sorted (map f xs)" and "x \<in> set (take n xs)" and "y \<in> set (drop n xs)"
  shows "f x \<le> f y"
proof -
  have "sorted (map f (take n xs) @ map f (drop n xs))"
    using assms(1) by (simp flip: map_append)
  then show ?thesis
    using assms(2,3) by (auto simp: sorted_append)
qed

lemma recent_with_length_mset:
  "mset (recent_with_length rows u)
     + mset (drop default_limit (order_by_start_date_desc (with_length rows u)))
   = mset (with_length rows u)"
proof -
  let ?s = "order_by_start_date_desc (with_length rows u)"
  have "mset (take default_limit ?s) + mset (drop default_limit ?s) = mset ?s"
    by (simp flip: mset_append)
  then show ?thesis
    by (simp add: recent_with_length_def order_by_start_date_desc_def)
qed

lemma length_cycle_lengths:
  "length (cycle_lengths (recent_with_length rows u)) = length (recent_with_length rows u)"
proof -
  have "\<forall>a \<in> set (recent_with_length rows u). ca_cycle_length a \<noteq> None"
    by (auto simp: recent_with_length_def with_length_def order_by_start_date_desc_def
        dest!: in_set_takeD)
  then have "filter (\<lambda>a. ca_cycle_length a \<noteq> None) (recent_with_length rows u)
      = recent_with_length rows u"
    by (simp add: filter_id_conv)
  then show ?thesis
    by (simp add: cycle_lengths_def List.map_filter_def)
qed

lemma order_desc_hd:
  assumes "order_by_start_date_desc xs = a # as"
  shows "a \<in> set xs \<and> (\<forall>x \<in> set xs. ca_start_date x \<le> ca_start_date a)"
proof -
  let ?f = "\<lambda>a. - ca_start_date a"
  have s: "sorted (map ?f (a # as))"
    using assms by (metis order_by_start_date_desc_def sorted_sort_key)
  have e: "set xs = set (a # as)"
    using assms by (metis order_by_start_date_desc_def set_sort)
  from s have "\<forall>x \<in> set as. ?f a \<le> ?f x" by simp
  with e show ?thesis by auto
qed

lemma order_desc_Nil: "order_by_start_date_desc xs = [] \<longleftrightarrow> xs = []"
  by (metis order_by_start_date_desc_def length_sort length_0_conv)

lemma most_recent_hd:
  assumes "order_by_start_date_desc (filter_by_user u rows) = a # as"
  shows "most_recent_start_date rows u = ca_start_date a"
proof -
  from order_desc_hd [OF assms]
  have "a \<in> set (filter_by_user u rows)"
    and "\<forall>x \<in> set (filter_by_user u rows). ca_start_date x \<le> ca_start_date a" by auto
  then show ?thesis
    unfolding most_recent_start_date_def
    by (intro Max_eqI) auto
qed

section \<open>The average cycle length\<close>

text \<open>
  Claim C8. \<open>calculate_average_cycle_length\<close> returns the arithmetic mean of the cycle
  lengths of the most recent at most 6 rows of the user that have a cycle length, and the
  default 28 when the user has no such row. With \<open>E\<close> the user's rows that have a cycle
  length and \<open>W\<close> the rows the function averages: \<open>W\<close> is drawn from \<open>E\<close>, has
  \<open>min 6 (length E)\<close> rows, no row of \<open>E\<close> outside \<open>W\<close> starts later than a row
  of \<open>W\<close>, and the result is the mean over \<open>W\<close>.
\<close>

theorem average_is_mean_of_recent_six:
  "(let E = with_length rows u; W = recent_with_length rows u
    in mset W \<subseteq># mset E
     \<and> length W = min 6 (length E)
     \<and> (\<forall>w \<in> set W. \<forall>r \<in># mset E - mset W. ca_start_date r \<le> ca_start_date w)
     \<and> (\<forall>w \<in> set W. Some (ca_user_id w) = u \<and> ca_cycle_length w \<noteq> None)
     \<and> calculate_average_cycle_length rows u =
         (if E = [] then 28 else arithmetic_mean (cycle_lengths W)))"
proof -
  let ?E = "with_length rows u"
  let ?s = "order_by_start_date_desc ?E"
  let ?W = "recent_with_length rows u"
  have W: "?W = take default_limit ?s"
    by (simp add: recent_with_length_def)
  have ms: "mset ?W + mset (drop default_limit ?s) = mset ?E"
    by (rule recent_with_length_mset)
  have sub: "mset ?W \<subseteq># mset ?E"
    by (metis ms mset_subset_eq_add_left)
  have diff: "mset ?E - mset ?W = mset (drop default_limit ?s)"
    by (metis ms add_diff_cancel_left')
  have len: "length ?W = min 6 (length ?E)"
    by (simp add: W order_by_start_date_desc_def default_limit_def)
  have srt: "sorted (map (\<lambda>a. - ca_start_date a) ?s)"
    by (simp add: order_by_start_date_desc_def)
  have recent: "\<forall>w \<in> set ?W. \<forall>r \<in># mset ?E - mset ?W. ca_start_date r \<le> ca_start_date w"
  proof (intro ballI)
    fix w r assume "w \<in> set ?W" and "r \<in># mset ?E - mset ?W"
    then have "w \<in> set (take default_limit ?s)" and "r \<in> set (drop default_limit ?s)"
      unfolding diff by (simp_all add: W)
    from sorted_take_drop_le [OF srt this] show "ca_start_date r \<le> ca_start_date w"
      by simp
  qed
  have own: "\<forall>w \<in> set ?W. Some (ca_user_id w) = u \<and> ca_cycle_length w \<noteq> None"
    by (auto simp: W with_length_def filter_by_user_def order_by_start_date_desc_def
        dest!: in_set_takeD)
  have emp: "?W = [] \<longleftrightarrow> ?E = []"
    using len by (metis length_0_conv min_0R zero_neq_numeral min_def)
  have avg: "calculate_average_cycle_length rows u =
         (if ?E = [] then 28 else arithmetic_mean (cycle_lengths ?W))"
    by (simp add: calculate_average_cycle_length_def Let_def emp arithmetic_mean_def
        length_cycle_lengths DEFAULT_CYCLE_LENGTH_def)
  show ?thesis
    unfolding Let_def using sub len recent own avg by blast
qed

lemma history_eight_recent:
  "recent_with_length history_eight (Some 1) =
     [analytics_row 9 1 9 313 (Some 28), analytics_row 5 1 5 285 (Some 29),
      analytics_row 8 1 8 256 (Some 29), analytics_row 7 1 7 227 (Some 29),
      analytics_row 6 1 6 198 (Some 28), analytics_row 3 1 3 170 (Some 30)]"
  by (simp add: query_defs history_eight_def analytics_row_def)

theorem average_is_mean_of_recent_six_witness:
  "length (recent_with_length history_eight (Some 1)) = 6
   \<and> calculate_average_cycle_length history_eight (Some 1)
       = arithmetic_mean [28, 29, 29, 29, 28, 30]
   \<and> calculate_average_cycle_length history_eight (Some 3) = 28"
proof -
  have E1: "with_length history_eight (Some 1) \<noteq> []"
    by (simp add: with_length_def filter_by_user_def history_eight_def analytics_row_def)
  have E1': "length (with_length history_eight (Some 1)) = 7"
    by (simp add: with_length_def filter_by_user_def history_eight_def analytics_row_def)
  have E3: "with_length history_eight (Some 3) = []"
    by (simp add: with_length_def filter_by_user_def history_eight_def analytics_row_def)
  have L: "cycle_lengths (recent_with_length history_eight (Some 1)) = [28, 29, 29, 29, 28, 30]"
    by (simp add: history_eight_recent cycle_lengths_def List.map_filter_def analytics_row_def)
  note t1 = average_is_mean_of_recent_six [of history_eight "Some 1", unfolded Let_def]
  note t3 = average_is_mean_of_recent_six [of history_eight "Some 3", unfolded Let_def]
  have "length (recent_with_length history_eight (Some 1))
      = min 6 (length (with_length history_eight (Some 1)))"
    by (rule conjunct1 [OF conjunct2 [OF t1]])
  then have a: "length (recent_with_length history_eight (Some 1)) = 6"
    by (simp add: E1')
  have "calculate_average_cycle_length history_eight (Some 1) =
      (if with_length history_eight (Some 1) = [] then 28
       else arithmetic_mean (cycle_lengths (recent_with_length history_eight (Some 1))))"
    by (rule conjunct2 [OF conjunct2 [OF conjunct2 [OF conjunct2 [OF t1]]]])
  then have b: "calculate_average_cycle_length history_eight (Some 1)
      = arithmetic_mean [28, 29, 29, 29, 28, 30]"
    by (simp add: E1 L)
  have "calculate_average_cycle_length history_eight (Some 3) =
      (if with_length history_eight (Some 3) = [] then 28
       else arithmetic_mean (cycle_lengths (recent_with_length history_eight (Some 3))))"
    by (rule conjunct2 [OF conjunct2 [OF conjunct2 [OF conjunct2 [OF t3]]]])
  then have c: "calculate_average_cycle_length history_eight (Some 3) = 28"
    by (simp add: E3)
  from a b c show ?thesis by simp
qed

section \<open>The predicted start date\<close>

text \<open>
  Claim C1, as the code has it. For a user with no row \<open>predict_next_period\<close> returns
  None. For a user with a row it adds \<open>int(avg)\<close> days, the average cycle length with its
  fraction cut off and not rounded, to the most recent start date: it returns a prediction
  with that date when the date exists (not after 9999-12-31), and raises OverflowError
  otherwise.
\<close>

theorem predict_next_period_truncates:
  "(filter_by_user u rows = [] \<longrightarrow> predict_next_period rows u = Inr None)
 \<and> (filter_by_user u rows \<noteq> [] \<longrightarrow>
     (let days = py_int (calculate_average_cycle_length rows u);
          d = most_recent_start_date rows u + days
      in if \<bar>days\<bar> \<le> 999999999 \<and> is_date d
         then \<exists>p. predict_next_period rows u = Inr (Some p) \<and> np_predicted_start_date p = d
         else predict_next_period rows u = Inl OverflowError))"
proof (cases "order_by_start_date_desc (filter_by_user u rows)")
  case Nil
  then have "filter_by_user u rows = []" by (simp add: order_desc_Nil)
  with Nil show ?thesis by (simp add: predict_next_period_def)
next
  case (Cons a as)
  have ne: "filter_by_user u rows \<noteq> []"
  proof
    assume "filter_by_user u rows = []"
    then have "order_by_start_date_desc (filter_by_user u rows) = []"
      by (simp add: order_by_start_date_desc_def)
    with Cons show False by simp
  qed
  have m: "most_recent_start_date rows u = ca_start_date a"
    using Cons by (rule most_recent_hd)
  have p: "predict_next_period rows u =
      (case timedelta (py_int (calculate_average_cycle_length rows u)) of
         Inl e \<Rightarrow> Inl e
       | Inr days \<Rightarrow>
          (case date_add (ca_start_date a) days of
             Inl e \<Rightarrow> Inl e
           | Inr predicted_date \<Rightarrow> Inr (Some
               \<lparr>np_user_id = u, np_predicted_start_date = predicted_date,
                np_confidence_score = (if calculate_cycle_variance rows u < 2 then 9 / 10
                   else if calculate_cycle_variance rows u < 5 then 3 / 4 else 6 / 10),
                np_prediction_method = ''average_cycle_length'',
                np_based_on_cycles = int (min (length (filter_by_user u rows)) 6),
                np_notes = ''Predicted using '' @ str_nat (min (length (filter_by_user u rows)) 6)
                  @ '' recent cycles. Cycle regularity: ''
                  @ (if (if calculate_cycle_variance rows u < 2 then True
                         else if calculate_cycle_variance rows u < 5 then True else False)
                     then ''regular'' else ''irregular'')\<rparr>)))"
    unfolding predict_next_period_def Cons Let_def by simp
  show ?thesis
  proof (cases "\<bar>py_int (calculate_average_cycle_length rows u)\<bar> \<le> 999999999
      \<and> is_date (ca_start_date a + py_int (calculate_average_cycle_length rows u))")
    case True
    then show ?thesis
      unfolding p m Let_def by (simp add: timedelta_def date_add_def ne)
  next
    case False
    then show ?thesis
      unfolding p m Let_def by (auto simp add: timedelta_def date_add_def ne)
  qed
qed

lemma history_four_average: "calculate_average_cycle_length history_four (Some 1) = 86 / 3"
  by (simp add: calculate_average_cycle_length_def query_defs history_four_def analytics_row_def)

lemma history_four_variance: "calculate_cycle_variance history_four (Some 1) = 2 / 9"
  by (simp add: calculate_cycle_variance_def query_defs history_four_def analytics_row_def
      Let_def power2_eq_square)

lemma history_four_most_recent: "most_recent_start_date history_four (Some 1) = 738972"
  by (simp add: most_recent_start_date_def filter_by_user_def history_four_def analytics_row_def)

lemma history_four_nonempty: "filter_by_user (Some 1) history_four \<noteq> []"
  by (simp add: filter_by_user_def history_four_def analytics_row_def)

text \<open>
  The claim as written, with \<open>round\<close>, fails: the average of 29, 28 and 29 is 28.67, which
  rounds to 29, and the code predicts 2024-03-27 plus 28 days.
\<close>

theorem predict_next_period_round_counterexample:
  "map_sum id (map_option np_predicted_start_date) (predict_next_period history_four (Some 1))
     = Inr (Some 739000)
   \<and> most_recent_start_date history_four (Some 1)
       + py_round (calculate_average_cycle_length history_four (Some 1)) = 739001"
proof -
  have "order_by_start_date_desc (filter_by_user (Some 1) history_four) =
      [analytics_row 4 1 4 738972 (Some 29), analytics_row 3 1 3 738943 (Some 28),
       analytics_row 2 1 2 738915 (Some 29), analytics_row 1 1 1 738886 None]"
    by (simp add: filter_by_user_def order_by_start_date_desc_def history_four_def
        analytics_row_def)
  then have "map_sum id (map_option np_predicted_start_date)
      (predict_next_period history_four (Some 1)) = Inr (Some 739000)"
    by (simp add: predict_next_period_def history_four_average history_four_variance Let_def
        py_int_def timedelta_def date_add_def is_date_def MINORDINAL_def MAXORDINAL_def
        analytics_row_def)
  moreover have "most_recent_start_date history_four (Some 1)
      + py_round (calculate_average_cycle_length history_four (Some 1)) = 739001"
    by (simp add: history_four_average history_four_most_recent py_round_def Let_def)
  ultimately show ?thesis by simp
qed

theorem predict_next_period_truncates_witness:
  "predict_next_period [] (Some 1) = Inr None
   \<and> (\<exists>p. predict_next_period history_four (Some 1) = Inr (Some p)
          \<and> np_predicted_start_date p = 739000)"
proof -
  have a: "predict_next_period [] (Some 1) = Inr None"
    using predict_next_period_truncates [of "Some 1" "[]"] by (simp add: filter_by_user_def)
  have b: "\<exists>p. predict_next_period history_four (Some 1) = Inr (Some p)
      \<and> np_predicted_start_date p = 739000"
    using predict_next_period_truncates [of "Some 1" history_four]
    by (simp add: history_four_nonempty history_four_average history_four_most_recent
        py_int_def is_date_def MINORDINAL_def MAXORDINAL_def Let_def)
  from a b show ?thesis by simp
qed

section \<open>The analytics consumer\<close>

lemma first_index_SomeD:
  "first_index P xs = Some i \<Longrightarrow> i < length xs \<and> P (xs ! i)"
  by (induction xs arbitrary: i) (auto split: if_splits)

lemma first_index_None_iff: "first_index P xs = None \<longleftrightarrow> (\<forall>x \<in> set xs. \<not> P x)"
  by (induction xs) auto

lemma first_index_map: "first_index P (map f xs) = first_index (\<lambda>x. P (f x)) xs"
  by (induction xs) auto

lemma first_index_append_new:
  "first_index P xs = None \<Longrightarrow> P x \<Longrightarrow> first_index P (xs @ [x]) = Some (length xs)"
  by (induction xs) (auto split: if_splits)

lemma map_update_same:
  "f a = f (xs ! i) \<Longrightarrow> map f (xs[i := a]) = map f xs"
  by (metis list_update_id map_update)

lemma prediction_step_table:
  "callback_prediction_step db u = Inr db' \<Longrightarrow> cycle_analytics_table db' = cycle_analytics_table db"
  by (auto simp: callback_prediction_step_def split: if_splits sum.splits option.splits)

lemma handle_cycle_event_table:
  "cycle_analytics_table (fst (handle_cycle_event db (Some m))) =
     (case process_cycle_analytics (cycle_analytics_table db) m of
        Inl e \<Rightarrow> cycle_analytics_table db
      | Inr rows \<Rightarrow> rows)"
  by (auto simp: handle_cycle_event_def Let_def dest: prediction_step_table
      split: sum.splits)

lemma callback_table:
  "cycle_analytics_table (fst (analytics_callback db tag body)) =
     cycle_analytics_table (fst (handle_cycle_event db body))"
  by (simp add: analytics_callback_def split: prod.splits option.splits)

lemma upsert_analytics_index:
  assumes "upsert_analytics rows m = Inr (rows1, i)"
  shows "i < length rows1 \<and> first_by_cycle_id (msg_cycle_id m) rows1 = Some i"
proof (cases "first_by_cycle_id (msg_cycle_id m) rows")
  case None
  with assms obtain a where r: "rows1 = rows @ [a]" "i = length rows"
      and c: "Some (ca_cycle_id a) = msg_cycle_id m"
    by (auto simp: upsert_analytics_def split: sum.splits option.splits)
  from None have "first_index (\<lambda>a. Some (ca_cycle_id a) = msg_cycle_id m) rows = None"
    by (simp add: first_by_cycle_id_def)
  from first_index_append_new [OF this, of a] c r show ?thesis
    by (simp add: first_by_cycle_id_def)
next
  case (Some j)
  then have j: "j < length rows" "Some (ca_cycle_id (rows ! j)) = msg_cycle_id m"
    using first_index_SomeD [of _ rows j] by (auto simp: first_by_cycle_id_def)
  from Some assms have i: "i = j" and ids: "map ca_cycle_id rows1 = map ca_cycle_id rows"
    by (auto simp: upsert_analytics_def map_update_same
        split: sum.splits option.splits)
  have "first_by_cycle_id (msg_cycle_id m) rows1
      = first_index (\<lambda>k. Some k = msg_cycle_id m) (map ca_cycle_id rows1)"
    by (simp add: first_by_cycle_id_def first_index_map)
  also have "\<dots> = first_by_cycle_id (msg_cycle_id m) rows"
    by (simp add: ids first_by_cycle_id_def first_index_map)
  finally have "first_by_cycle_id (msg_cycle_id m) rows1 = Some j" using Some by simp
  moreover have "length rows1 = length rows" using ids by (metis length_map)
  ultimately show ?thesis using i j by simp
qed

lemma refresh_analytics_cycle_ids:
  "map ca_cycle_id (refresh_analytics rows u i) = map ca_cycle_id rows"
  by (auto simp: refresh_analytics_def Let_def map_update_same
      split: option.splits)

lemma cycle_event_user [simp]: "msg_user_id (cycle_event u c s e) = Some u"
  by (simp add: cycle_event_def)

lemma cycle_event_type [simp]: "msg_event_type (cycle_event u c s e) = Some ''new_cycle_data''"
  by (simp add: cycle_event_def)

lemma cycle_event_cycle [simp]: "msg_cycle_id (cycle_event u c s e) = Some c"
  by (simp add: cycle_event_def)

lemmas eval_defs = process_cycle_analytics_def upsert_analytics_def refresh_analytics_def
  first_by_cycle_id_def parse_end_date_def fromisoformat_item_def previous_analytics_def
  is_regular_of_def fresh_id_def is_date_def MINORDINAL_def MAXORDINAL_def
  calculate_average_cycle_length_def calculate_cycle_variance_def DEFAULT_CYCLE_LENGTH_def
  cycle_event_def analytics_row_def

lemmas callback_defs = analytics_callback_def handle_cycle_event_def callback_prediction_step_def
  predict_next_period_def insert_prediction_def deactivate_predictions_def
  py_int_def timedelta_def date_add_def str_nat.simps digit_def

lemma third_cycle_first_time:
  "process_cycle_analytics history_two third_cycle = Inr (history_two @ [third_row_once])"
  by (simp add: eval_defs query_defs history_two_def third_cycle_def third_row_once_def Let_def)

lemma third_cycle_second_time:
  "process_cycle_analytics (history_two @ [third_row_once]) third_cycle =
     Inr (history_two @ [third_row_twice])"
  by (simp add: eval_defs query_defs history_two_def third_cycle_def third_row_once_def
      third_row_twice_def Let_def power2_eq_square)

section \<open>Acknowledgement\<close>

lemma consume_step_drains:
  assumes "\<And>db tag m rest. settle (snd (callback db tag m)) m rest = rest"
  shows "snd ((consume_step callback ^^ length queue) (db, queue, delivered))
       = ([], delivered @ queue)"
proof (induction queue arbitrary: db delivered)
  case Nil
  then show ?case by simp
next
  case (Cons body rest)
  obtain db' st where c: "callback db (int (length delivered) + 1) body = (db', st)"
    by (cases "callback db (int (length delivered) + 1) body")
  from assms [of db "int (length delivered) + 1" body rest] c
  have "settle st body rest = rest" by simp
  with c have step: "consume_step callback (db, body # rest, delivered)
      = (db', rest, delivered @ [body])"
    by (simp add: consume_step_def)
  have "(consume_step callback ^^ length (body # rest)) (db, body # rest, delivered)
      = (consume_step callback ^^ length rest) (consume_step callback (db, body # rest, delivered))"
    by (simp add: funpow_swap1)
  with step Cons.IH [of db' "delivered @ [body]"] show ?case by simp
qed

lemma analytics_never_requeues:
  "settle (snd (analytics_callback db tag m)) m rest = rest"
  by (simp add: analytics_callback_def settle_def split: prod.splits option.splits)

lemma notification_never_requeues:
  "settle (snd (notification_callback db tag m)) m rest = rest"
  by (simp add: notification_callback_def settle_def split: prod.splits option.splits)

text \<open>
  Claim C4. In both consumers a delivery whose handler block ends without an exception is
  acknowledged, and one whose handler block raises is rejected with \<open>requeue=False\<close>;
  either way the broker drops the message from the queue. So a consumer that is handed
  the head of its queue as many times as the queue has messages leaves the queue empty and
  has been handed every message once: none is delivered again.
\<close>

theorem ack_policy:
  "snd (analytics_callback adb tag body) =
      (if snd (handle_cycle_event adb body) = None then BasicAck tag else BasicNack tag False)
   \<and> snd (notification_callback ndb tag' body') =
      (if snd (handle_prediction_event ndb body') = None then BasicAck tag' else BasicNack tag' False)
   \<and> settle (snd (analytics_callback adb tag body)) body queue = queue
   \<and> settle (snd (notification_callback ndb tag' body')) body' queue' = queue'
   \<and> snd ((consume_step analytics_callback ^^ length queue) (adb, queue, [])) = ([], queue)
   \<and> snd ((consume_step notification_callback ^^ length queue') (ndb, queue', []))
       = ([], queue')"
proof -
  have "snd ((consume_step analytics_callback ^^ length queue) (adb, queue, [])) = ([], [] @ queue)"
    by (rule consume_step_drains) (rule analytics_never_requeues)
  moreover
  have "snd ((consume_step notification_callback ^^ length queue') (ndb, queue', []))
      = ([], [] @ queue')"
    by (rule consume_step_drains) (rule notification_never_requeues)
  ultimately show ?thesis
    by (simp add: analytics_callback_def notification_callback_def settle_def
      split: prod.splits option.splits)
qed

text \<open>
  Both settlements occur: a body that is no JSON document is rejected by either consumer,
  a first cycle event is acknowledged.
\<close>

lemma ack_and_nack_occur:
  "snd (analytics_callback empty_analytics_db 1 (Some first_cycle)) = BasicAck 1"
  "snd (analytics_callback empty_analytics_db 2 None) = BasicNack 2 False"
  "snd (notification_callback ndb 3 None) = BasicNack 3 False"
  by (simp_all add: empty_analytics_db_def first_cycle_def callback_defs eval_defs query_defs
      notification_callback_def handle_prediction_event_def Let_def)

section \<open>Regularity of a cycle with variance zero\<close>

text \<open>
  Claim C10. When the consumer processes a cycle event and the statistics are reached, the
  row it commits holds the recomputed variance, and \<open>is_regular\<close> is None when that
  variance is 0, and the boolean \<open>variance < 5\<close> otherwise.
\<close>

theorem is_regular_unset_on_zero_variance:
  assumes "msg_event_type m \<noteq> None"
      and "upsert_analytics (cycle_analytics_table db) m = Inr (rows1, i)"
  shows "(let v = calculate_cycle_variance rows1 (msg_user_id m);
              rows' = cycle_analytics_table (fst (analytics_callback db tag (Some m)))
          in first_by_cycle_id (msg_cycle_id m) rows' = Some i
           \<and> ca_cycle_variance (rows' ! i) = Some v
           \<and> (v = 0 \<longrightarrow> ca_is_regular (rows' ! i) = None)
           \<and> (v \<noteq> 0 \<longrightarrow> ca_is_regular (rows' ! i) = Some (v < 5)))"
proof -
  let ?u = "msg_user_id m"
  let ?rows' = "refresh_analytics rows1 ?u i"
  from upsert_analytics_index [OF assms(2)]
  have i: "i < length rows1" and f: "first_by_cycle_id (msg_cycle_id m) rows1 = Some i"
    by auto
  have t: "cycle_analytics_table (fst (analytics_callback db tag (Some m))) = ?rows'"
    using assms by (auto simp: callback_table handle_cycle_event_table process_cycle_analytics_def)
  have "first_by_cycle_id (msg_cycle_id m) ?rows'
      = first_index (\<lambda>k. Some k = msg_cycle_id m) (map ca_cycle_id ?rows')"
    by (simp add: first_by_cycle_id_def first_index_map)
  also have "\<dots> = first_by_cycle_id (msg_cycle_id m) rows1"
    by (simp add: refresh_analytics_cycle_ids first_by_cycle_id_def first_index_map)
  finally have f': "first_by_cycle_id (msg_cycle_id m) ?rows' = Some i" using f by simp
  have v: "ca_cycle_variance (?rows' ! i) = Some (calculate_cycle_variance rows1 ?u)"
    and r: "ca_is_regular (?rows' ! i) = is_regular_of (calculate_cycle_variance rows1 ?u)"
    using i by (auto simp: refresh_analytics_def Let_def split: option.splits)
  show ?thesis
    unfolding Let_def t using f' v r by (simp add: is_regular_of_def)
qed

lemma history_two_variance:
  "calculate_cycle_variance (history_two @ [analytics_row 3 1 3 738944 None]) (Some 1) = 0"
  by (simp add: calculate_cycle_variance_def query_defs history_two_def analytics_row_def)

lemma history_three_variance:
  "calculate_cycle_variance (history_two @ [third_row_once]) (Some 1) = 1"
  by (simp add: calculate_cycle_variance_def query_defs history_two_def analytics_row_def
      third_row_once_def Let_def power2_eq_square)

theorem is_regular_unset_on_zero_variance_witness:
  "ca_cycle_variance (cycle_analytics_table
       (fst (analytics_callback two_cycles_db 1 (Some third_cycle))) ! 2) = Some 0
   \<and> ca_is_regular (cycle_analytics_table
       (fst (analytics_callback two_cycles_db 1 (Some third_cycle))) ! 2) = None
   \<and> ca_cycle_variance (cycle_analytics_table
       (fst (analytics_callback
          (two_cycles_db\<lparr>cycle_analytics_table := history_two @ [third_row_once]\<rparr>)
          2 (Some third_cycle))) ! 2) = Some 1
   \<and> ca_is_regular (cycle_analytics_table
       (fst (analytics_callback
          (two_cycles_db\<lparr>cycle_analytics_table := history_two @ [third_row_once]\<rparr>)
          2 (Some third_cycle))) ! 2) = Some True"
proof -
  have ev: "msg_event_type third_cycle \<noteq> None"
    by (simp add: third_cycle_def)
  have u: "msg_user_id third_cycle = Some 1"
    by (simp add: third_cycle_def)
  have up1: "upsert_analytics (cycle_analytics_table two_cycles_db) third_cycle
      = Inr (history_two @ [analytics_row 3 1 3 738944 None], 2)"
    by (simp add: two_cycles_db_def eval_defs history_two_def third_cycle_def)
  have up2: "upsert_analytics (cycle_analytics_table
        (two_cycles_db\<lparr>cycle_analytics_table := history_two @ [third_row_once]\<rparr>)) third_cycle
      = Inr (history_two @ [third_row_once], 2)"
    by (simp add: eval_defs history_two_def third_cycle_def third_row_once_def)
  note t1 = is_regular_unset_on_zero_variance [OF ev up1, of 1, unfolded Let_def u history_two_variance]
  note t2 = is_regular_unset_on_zero_variance [OF ev up2, of 2, unfolded Let_def u history_three_variance]
  from t1 have a: "ca_cycle_variance (cycle_analytics_table
       (fst (analytics_callback two_cycles_db 1 (Some third_cycle))) ! 2) = Some 0"
    and b: "ca_is_regular (cycle_analytics_table
       (fst (analytics_callback two_cycles_db 1 (Some third_cycle))) ! 2) = None"
    by simp_all
  from t2 have c: "ca_cycle_variance (cycle_analytics_table
       (fst (analytics_callback
          (two_cycles_db\<lparr>cycle_analytics_table := history_two @ [third_row_once]\<rparr>)
          2 (Some third_cycle))) ! 2) = Some 1"
    and d: "ca_is_regular (cycle_analytics_table
       (fst (analytics_callback
          (two_cycles_db\<lparr>cycle_analytics_table := history_two @ [third_row_once]\<rparr>)
          2 (Some third_cycle))) ! 2) = Some True"
    by simp_all
  from a b c d show ?thesis by simp
qed

section \<open>A callback that raises\<close>

lemma analytics_stage_committed:
  "analytics_stage faults rows m = Inr rows' \<Longrightarrow> msg_event_type m = Some t \<Longrightarrow>
   process_cycle_analytics rows m = Inr rows'"
  by (auto simp: analytics_stage_def process_cycle_analytics_def Let_def
      split: if_splits sum.splits prod.splits)

lemma analytics_stage_no_faults:
  "msg_event_type m = Some t \<Longrightarrow>
   analytics_stage no_faults rows m =
     (case process_cycle_analytics rows m of
        Inl e \<Rightarrow> Inl (pending_at_upsert rows m, e)
      | Inr rows' \<Rightarrow> Inr rows')"
  by (auto simp: analytics_stage_def process_cycle_analytics_def no_faults_def Let_def
      split: sum.splits prod.splits)

lemma prediction_stage_table:
  "prediction_stage faults db u = (db', raised) \<Longrightarrow>
   cycle_analytics_table db' = cycle_analytics_table db"
  by (auto simp: prediction_stage_def split: if_splits sum.splits option.splits)

lemma prediction_stage_no_faults:
  "prediction_stage no_faults db u =
     (case callback_prediction_step db u of
        Inl e \<Rightarrow> (db, Some e)
      | Inr db' \<Rightarrow> (db', None))"
  by (auto simp: prediction_stage_def callback_prediction_step_def no_faults_def
      split: sum.splits option.splits)

lemma in_app_context_stored:
  assumes "in_app_context faults db m = (db', pending, raised)"
    and "msg_event_type m = Some t"
  shows "(pending \<noteq> Clean \<longrightarrow> db' = db)
       \<and> (cycle_analytics_table db' = cycle_analytics_table db
          \<or> process_cycle_analytics (cycle_analytics_table db) m = Inr (cycle_analytics_table db'))"
proof (cases "analytics_stage faults (cycle_analytics_table db) m")
  case (Inl pe)
  with assms(1) show ?thesis
    by (auto simp: in_app_context_def split: prod.splits)
next
  case (Inr rows)
  obtain db2 r where p: "prediction_stage faults (db\<lparr>cycle_analytics_table := rows\<rparr>)
      (msg_user_id m) = (db2, r)"
    by (cases "prediction_stage faults (db\<lparr>cycle_analytics_table := rows\<rparr>) (msg_user_id m)")
  from assms(1) Inr p have e: "db' = db2" "pending = Clean"
    by (simp_all add: in_app_context_def)
  from prediction_stage_table [OF p] have "cycle_analytics_table db2 = rows" by simp
  with analytics_stage_committed [OF Inr assms(2)] e show ?thesis by simp
qed

text \<open>
  Without faults the callback with the session is the callback of the sections above: the
  same database and the same settlement, after the removal of the session.
\<close>

lemma session_callback_no_faults:
  "fst (session_callback no_faults db tag body) = fst (analytics_callback db tag body)
   \<and> last (snd (session_callback no_faults db tag body)) =
       Settled (snd (analytics_callback db tag body))"
proof (cases body)
  case None
  then show ?thesis
    by (simp add: session_callback_def analytics_callback_def handle_cycle_event_def)
next
  case (Some m)
  show ?thesis
  proof (cases "msg_event_type m")
    case None
    with Some show ?thesis
      by (simp add: session_callback_def analytics_callback_def handle_cycle_event_def
          process_cycle_analytics_def)
  next
    case (Some t)
    with \<open>body = Some m\<close> show ?thesis
      by (auto simp: session_callback_def analytics_callback_def handle_cycle_event_def
          in_app_context_def analytics_stage_no_faults prediction_stage_no_faults Let_def
          split: sum.splits prod.splits option.splits)
  qed
qed

text \<open>
  Claim C3. Let the callback raise, whatever the database holds, whatever the message is
  and whichever database statements fail. Then the delivery is rejected as the last thing
  the callback does, and when a session was opened its removal, which rolls back the work
  on \<open>cycle_analytics\<close> that it had not committed, comes before the rejection; when
  such work was pending, the database is the one before the delivery. In every case the
  table \<open>cycle_analytics\<close> is the one before the delivery, or it is the table that
  line 130 commits when lines 97-128 have run to their end, with the finished row: the
  exception then came after that commit. No table in between is ever stored.
\<close>

theorem partial_write_is_rolled_back:
  assumes "session_callback faults db tag body = (db', effects)"
    and "Settled (BasicNack tag False) \<in> set effects"
  shows "(effects = [Settled (BasicNack tag False)] \<and> db' = db
          \<or> (\<exists>pending. effects = [SessionRemoved pending, Settled (BasicNack tag False)]
                \<and> (pending \<noteq> Clean \<longrightarrow> db' = db)))
       \<and> (cycle_analytics_table db' = cycle_analytics_table db
          \<or> (\<exists>m. body = Some m
                \<and> process_cycle_analytics (cycle_analytics_table db) m =
                    Inr (cycle_analytics_table db')))"
proof (cases body)
  case None
  with assms show ?thesis by (auto simp: session_callback_def)
next
  case (Some m)
  show ?thesis
  proof (cases "msg_event_type m")
    case None
    with Some assms show ?thesis by (auto simp: session_callback_def)
  next
    case t: (Some t)
    obtain db2 pending raised where c: "in_app_context faults db m = (db2, pending, raised)"
      by (cases "in_app_context faults db m")
    from assms Some t c have e: "db' = db2"
      and f: "effects = [SessionRemoved pending, Settled (BasicNack tag False)]"
      by (auto simp: session_callback_def split: option.splits)
    from in_app_context_stored [OF c t] Some e f show ?thesis by simp
  qed
qed

text \<open>
  Three deliveries that are rejected. An end date that is no date: the new object is in
  the session and is dropped with it. A fault of line 122: the row with its statistics and
  without its cycle length has been flushed, and is rolled back. A second cycle starting
  on 9999-12-30: the row is committed whole on line 130, then the predicted day, 29 days
  later, is no date.
\<close>

lemma bad_end_date_is_rejected:
  "session_callback no_faults two_cycles_db 7 (Some third_cycle_bad_end) =
     (two_cycles_db, [SessionRemoved (Added third_cycle_bad_end), Settled (BasicNack 7 False)])"
  by (simp add: session_callback_def in_app_context_def analytics_stage_def
      pending_at_upsert_def no_faults_def third_cycle_bad_end_def two_cycles_db_def
      history_two_def eval_defs Let_def)

lemma fault_before_commit_is_rejected:
  "session_callback (fault_at 122) two_cycles_db 7 (Some third_cycle) =
     (two_cycles_db,
      [SessionRemoved (Changed (history_two @ [third_row_half])), Settled (BasicNack 7 False)])"
  by (simp add: session_callback_def in_app_context_def analytics_stage_def fault_at_def
      third_cycle_def two_cycles_db_def history_two_def third_row_half_def eval_defs
      query_defs Let_def)

lemma exception_after_commit_is_rejected:
  "session_callback no_faults late_db 7 (Some late_cycle) =
     (late_db\<lparr>cycle_analytics_table := cycle_analytics_table late_db @ [late_row]\<rparr>,
      [SessionRemoved Clean, Settled (BasicNack 7 False)])
   \<and> process_cycle_analytics (cycle_analytics_table late_db) late_cycle =
       Inr (cycle_analytics_table late_db @ [late_row])"
  by (simp add: session_callback_def in_app_context_def analytics_stage_def
      prediction_stage_def no_faults_def late_db_def late_cycle_def late_row_def
      callback_defs eval_defs query_defs Let_def)

theorem partial_write_is_rolled_back_witness:
  "snd (session_callback (fault_at 122) two_cycles_db 7 (Some third_cycle)) =
     [SessionRemoved (Changed (history_two @ [third_row_half])), Settled (BasicNack 7 False)]
   \<and> fst (session_callback (fault_at 122) two_cycles_db 7 (Some third_cycle)) = two_cycles_db
   \<and> cycle_analytics_table two_cycles_db = history_two"
proof -
  let ?r = "session_callback (fault_at 122) two_cycles_db 7 (Some third_cycle)"
  let ?effects = "[SessionRemoved (Changed (history_two @ [third_row_half])),
      Settled (BasicNack 7 False)]"
  have e: "snd ?r = ?effects"
    by (simp add: fault_before_commit_is_rejected)
  then have p: "?r = (fst ?r, ?effects)"
    by (metis prod.collapse)
  have m: "Settled (BasicNack 7 False) \<in> set ?effects"
    by simp
  from partial_write_is_rolled_back [OF p m] have "fst ?r = two_cycles_db"
    by auto
  with e show ?thesis by (simp add: two_cycles_db_def)
qed

section \<open>Replaying a cycle event\<close>

lemma previous_start_char:
  "map_option ca_start_date (previous_analytics rows u s) =
     (if earlier_starts (map user_and_start rows) u s = {} then None
      else Some (Max (earlier_starts (map user_and_start rows) u s)))"
proof -
  let ?F = "filter (\<lambda>a. ca_start_date a < s) (filter_by_user u rows)"
  have D: "earlier_starts (map user_and_start rows) u s = ca_start_date ` set ?F"
    by (auto simp: earlier_starts_def user_and_start_def filter_by_user_def)
  show ?thesis
  proof (cases "order_by_start_date_desc ?F")
    case Nil
    then have "?F = []" by (simp add: order_desc_Nil)
    with Nil show ?thesis
      unfolding D by (simp add: previous_analytics_def)
  next
    case (Cons p ps)
    from order_desc_hd [OF Cons]
    have "p \<in> set ?F" and "\<forall>x \<in> set ?F. ca_start_date x \<le> ca_start_date p" by auto
    then have "Max (ca_start_date ` set ?F) = ca_start_date p" and "set ?F \<noteq> {}"
      by (auto intro!: Max_eqI)
    with Cons show ?thesis
      unfolding D by (simp add: previous_analytics_def)
  qed
qed

lemma previous_start_cong:
  "map user_and_start rows' = map user_and_start rows \<Longrightarrow>
   map_option ca_start_date (previous_analytics rows' u s)
     = map_option ca_start_date (previous_analytics rows u s)"
  by (simp add: previous_start_char)

lemma refresh_analytics_update:
  "refresh_analytics rows u i =
     rows[i := (rows ! i)
        \<lparr>ca_average_cycle_length := Some (calculate_average_cycle_length rows u),
         ca_cycle_variance := Some (calculate_cycle_variance rows u),
         ca_is_regular := is_regular_of (calculate_cycle_variance rows u),
         ca_cycle_length :=
           (case previous_analytics rows u (ca_start_date (rows ! i)) of
              None \<Rightarrow> ca_cycle_length (rows ! i)
            | Some prev_analytics \<Rightarrow>
                Some (ca_start_date (rows ! i) - ca_start_date prev_analytics))\<rparr>]"
  by (simp add: refresh_analytics_def Let_def split: option.splits)

lemma refresh_analytics_keys:
  "map user_and_start (refresh_analytics rows u i) = map user_and_start rows"
  by (simp add: refresh_analytics_update map_update_same user_and_start_def)

lemma upsert_analytics_end:
  assumes "upsert_analytics rows m = Inr (rows1, i)"
  shows "parse_end_date (msg_end_date m) (ca_start_date (rows1 ! i)) = Inr None
       \<or> (\<exists>e pl. parse_end_date (msg_end_date m) (ca_start_date (rows1 ! i)) = Inr (Some (e, pl))
            \<and> ca_end_date (rows1 ! i) = Some e \<and> ca_period_length (rows1 ! i) = Some pl)"
proof (cases "first_by_cycle_id (msg_cycle_id m) rows")
  case None
  with assms obtain start ended where
      "parse_end_date (msg_end_date m) start = Inr ended"
      "ca_start_date (rows1 ! i) = start"
      "ca_end_date (rows1 ! i) = map_option fst ended"
      "ca_period_length (rows1 ! i) = map_option snd ended"
    by (auto simp: upsert_analytics_def split: sum.splits option.splits)
  then show ?thesis
    by (cases ended) auto
next
  case (Some j)
  then have "j < length rows"
    using first_index_SomeD [of _ rows j] by (auto simp: first_by_cycle_id_def)
  with Some assms show ?thesis
    by (auto simp: upsert_analytics_def split: sum.splits option.splits)
qed

lemma upsert_analytics_again:
  assumes "first_by_cycle_id (msg_cycle_id m) rows = Some i"
      and "parse_end_date (msg_end_date m) (ca_start_date (rows ! i)) = Inr None
       \<or> (\<exists>e pl. parse_end_date (msg_end_date m) (ca_start_date (rows ! i)) = Inr (Some (e, pl))
            \<and> ca_end_date (rows ! i) = Some e \<and> ca_period_length (rows ! i) = Some pl)"
  shows "upsert_analytics rows m = Inr (rows, i)"
  using assms(2)
proof
  assume "parse_end_date (msg_end_date m) (ca_start_date (rows ! i)) = Inr None"
  with assms(1) show ?thesis by (simp add: upsert_analytics_def)
next
  assume "\<exists>e pl. parse_end_date (msg_end_date m) (ca_start_date (rows ! i)) = Inr (Some (e, pl))
            \<and> ca_end_date (rows ! i) = Some e \<and> ca_period_length (rows ! i) = Some pl"
  then obtain e pl where p: "parse_end_date (msg_end_date m) (ca_start_date (rows ! i)) = Inr (Some (e, pl))"
    and e: "ca_end_date (rows ! i) = Some e" and pl: "ca_period_length (rows ! i) = Some pl"
    by blast
  have "(rows ! i)\<lparr>ca_end_date := Some e, ca_period_length := Some pl\<rparr> = rows ! i"
    using e pl by (intro cycle_analytics.equality) simp_all
  with assms(1) p show ?thesis by (simp add: upsert_analytics_def)
qed

lemma process_replay:
  assumes "process_cycle_analytics rows m = Inr rows1"
  shows "\<exists>i a. i < length rows1 \<and> process_cycle_analytics rows1 m = Inr (rows1[i := a])
           \<and> stable_columns a = stable_columns (rows1 ! i)
           \<and> first_by_cycle_id (msg_cycle_id m) rows1 = Some i"
proof -
  let ?u = "msg_user_id m"
  from assms obtain R i where ev: "msg_event_type m \<noteq> None"
      and up: "upsert_analytics rows m = Inr (R, i)"
      and r1: "rows1 = refresh_analytics R ?u i"
    by (auto simp: process_cycle_analytics_def split: option.splits sum.splits)
  from upsert_analytics_index [OF up]
  have i: "i < length R" and f: "first_by_cycle_id (msg_cycle_id m) R = Some i" by auto
  have len: "length rows1 = length R"
    by (simp add: r1 refresh_analytics_update)
  have keys: "map user_and_start rows1 = map user_and_start R"
    by (simp add: r1 refresh_analytics_keys)
  have "first_by_cycle_id (msg_cycle_id m) rows1
      = first_index (\<lambda>k. Some k = msg_cycle_id m) (map ca_cycle_id rows1)"
    by (simp add: first_by_cycle_id_def first_index_map)
  also have "\<dots> = first_by_cycle_id (msg_cycle_id m) R"
    by (simp add: r1 refresh_analytics_cycle_ids first_by_cycle_id_def first_index_map)
  finally have f1: "first_by_cycle_id (msg_cycle_id m) rows1 = Some i" using f by simp
  have nth: "rows1 ! i = (R ! i)
        \<lparr>ca_average_cycle_length := Some (calculate_average_cycle_length R ?u),
         ca_cycle_variance := Some (calculate_cycle_variance R ?u),
         ca_is_regular := is_regular_of (calculate_cycle_variance R ?u),
         ca_cycle_length :=
           (case previous_analytics R ?u (ca_start_date (R ! i)) of
              None \<Rightarrow> ca_cycle_length (R ! i)
            | Some prev_analytics \<Rightarrow>
                Some (ca_start_date (R ! i) - ca_start_date prev_analytics))\<rparr>"
    using i by (simp add: r1 refresh_analytics_update)
  have st: "ca_start_date (rows1 ! i) = ca_start_date (R ! i)"
    and en: "ca_end_date (rows1 ! i) = ca_end_date (R ! i)"
    and pe: "ca_period_length (rows1 ! i) = ca_period_length (R ! i)"
    by (simp_all add: nth)
  have up1: "upsert_analytics rows1 m = Inr (rows1, i)"
    using upsert_analytics_end [OF up] f1
    by (intro upsert_analytics_again) (simp_all add: st en pe)
  let ?a = "(rows1 ! i)
        \<lparr>ca_average_cycle_length := Some (calculate_average_cycle_length rows1 ?u),
         ca_cycle_variance := Some (calculate_cycle_variance rows1 ?u),
         ca_is_regular := is_regular_of (calculate_cycle_variance rows1 ?u),
         ca_cycle_length :=
           (case previous_analytics rows1 ?u (ca_start_date (rows1 ! i)) of
              None \<Rightarrow> ca_cycle_length (rows1 ! i)
            | Some prev_analytics \<Rightarrow>
                Some (ca_start_date (rows1 ! i) - ca_start_date prev_analytics))\<rparr>"
  have p1: "process_cycle_analytics rows1 m = Inr (rows1[i := ?a])"
    using ev by (auto simp: process_cycle_analytics_def up1 refresh_analytics_update)
  have prev: "map_option ca_start_date (previous_analytics rows1 ?u (ca_start_date (R ! i)))
      = map_option ca_start_date (previous_analytics R ?u (ca_start_date (R ! i)))"
    using keys by (rule previous_start_cong)
  have cl: "ca_cycle_length ?a = ca_cycle_length (rows1 ! i)"
  proof (cases "previous_analytics rows1 ?u (ca_start_date (R ! i))")
    case None
    then show ?thesis by (simp add: st)
  next
    case (Some q)
    with prev obtain q' where q': "previous_analytics R ?u (ca_start_date (R ! i)) = Some q'"
      and "ca_start_date q' = ca_start_date q"
      by (cases "previous_analytics R ?u (ca_start_date (R ! i))") auto
    with Some show ?thesis by (simp add: st nth)
  qed
  have "stable_columns ?a = stable_columns (rows1 ! i)"
    using cl by (simp add: stable_columns_def)
  with p1 i len f1 show ?thesis by metis
qed

lemma replay_message:
  "(let db1 = fst (analytics_callback db tag1 (Some m));
        db2 = fst (analytics_callback db1 tag2 (Some m))
    in length (cycle_analytics_table db2) = length (cycle_analytics_table db1)
     \<and> map stable_columns (cycle_analytics_table db2)
         = map stable_columns (cycle_analytics_table db1)
     \<and> (\<exists>i a. cycle_analytics_table db2 = (cycle_analytics_table db1)[i := a]
           \<and> (cycle_analytics_table db2 \<noteq> cycle_analytics_table db1 \<longrightarrow>
                first_by_cycle_id (msg_cycle_id m) (cycle_analytics_table db1) = Some i)))"
proof -
  let ?T = "cycle_analytics_table db"
  let ?db1 = "fst (analytics_callback db tag1 (Some m))"
  let ?db2 = "fst (analytics_callback ?db1 tag2 (Some m))"
  have t1: "cycle_analytics_table ?db1 =
      (case process_cycle_analytics ?T m of Inl e \<Rightarrow> ?T | Inr rows \<Rightarrow> rows)"
    by (simp only: callback_table handle_cycle_event_table)
  have t2: "cycle_analytics_table ?db2 =
      (case process_cycle_analytics (cycle_analytics_table ?db1) m of
         Inl e \<Rightarrow> cycle_analytics_table ?db1 | Inr rows \<Rightarrow> rows)"
    by (simp only: callback_table handle_cycle_event_table)
  show ?thesis
  proof (cases "process_cycle_analytics ?T m")
    case (Inl e)
    then have e1: "cycle_analytics_table ?db1 = ?T" by (simp add: t1)
    from this Inl have e2: "cycle_analytics_table ?db2 = ?T" by (simp add: t2)
    have "\<exists>i a. ?T = ?T[i := a]" by (metis list_update_id)
    then show ?thesis
      unfolding Let_def e1 e2 by simp
  next
    case (Inr rows1)
    then have e1: "cycle_analytics_table ?db1 = rows1" by (simp add: t1)
    from process_replay [OF Inr] obtain i a where i: "i < length rows1"
      and p: "process_cycle_analytics rows1 m = Inr (rows1[i := a])"
      and s: "stable_columns a = stable_columns (rows1 ! i)"
      and f: "first_by_cycle_id (msg_cycle_id m) rows1 = Some i" by blast
    from p have e2: "cycle_analytics_table ?db2 = rows1[i := a]" by (simp add: t2 e1)
    have "map stable_columns (rows1[i := a]) = map stable_columns rows1"
      using s by (rule map_update_same)
    with f show ?thesis
      unfolding Let_def e1 e2 by auto
  qed
qed

text \<open>
  Claim C6, for the columns that hold it. Processing the same delivery a second time adds
  no row and changes at most one row, the first one that has the cycle id of the event,
  and in every row the columns that describe the cycle (id, user, cycle id, start and end
  date, cycle length, period length) are as the first processing left them.
\<close>

theorem replay_keeps_stable_columns:
  "(let db1 = fst (analytics_callback db tag1 body);
        db2 = fst (analytics_callback db1 tag2 body)
    in length (cycle_analytics_table db2) = length (cycle_analytics_table db1)
     \<and> map stable_columns (cycle_analytics_table db2)
         = map stable_columns (cycle_analytics_table db1)
     \<and> (\<exists>i a. cycle_analytics_table db2 = (cycle_analytics_table db1)[i := a]
           \<and> (cycle_analytics_table db2 \<noteq> cycle_analytics_table db1 \<longrightarrow>
                first_by_cycle_id (Option.bind body msg_cycle_id)
                  (cycle_analytics_table db1) = Some i)))"
proof (cases body)
  case None
  have "\<exists>i a. cycle_analytics_table db = (cycle_analytics_table db)[i := a]"
    by (metis list_update_id)
  then show ?thesis
    unfolding None by (simp add: Let_def analytics_callback_def handle_cycle_event_def)
next
  case (Some m)
  from replay_message [of db tag1 m tag2] show ?thesis
    unfolding Some by simp
qed

text \<open>
  The claim as written fails for the statistics: the first processing computes them before
  it sets the cycle length of the new row (lines 117-119, then 128), the second one finds
  that length in the history.
\<close>

theorem replay_changes_statistics_counterexample:
  "cycle_analytics_table (fst (analytics_callback two_cycles_db 1 (Some third_cycle))) ! 2
     = third_row_once
   \<and> cycle_analytics_table
       (fst (analytics_callback (fst (analytics_callback two_cycles_db 1 (Some third_cycle)))
              2 (Some third_cycle))) ! 2
     = third_row_twice
   \<and> ca_average_cycle_length third_row_once = Some 28
   \<and> ca_average_cycle_length third_row_twice = Some 29
   \<and> ca_is_regular third_row_once = None
   \<and> ca_is_regular third_row_twice = Some True"
proof -
  have t: "cycle_analytics_table two_cycles_db = history_two"
    by (simp add: two_cycles_db_def)
  have a: "cycle_analytics_table (fst (analytics_callback two_cycles_db 1 (Some third_cycle)))
      = history_two @ [third_row_once]"
    by (simp add: callback_table handle_cycle_event_table t third_cycle_first_time)
  have b: "cycle_analytics_table
       (fst (analytics_callback (fst (analytics_callback two_cycles_db 1 (Some third_cycle)))
              2 (Some third_cycle)))
      = history_two @ [third_row_twice]"
    by (simp add: callback_table handle_cycle_event_table t third_cycle_first_time
        third_cycle_second_time)
  show ?thesis
    unfolding a b by (simp add: history_two_def third_row_once_def third_row_twice_def)
qed

theorem replay_keeps_stable_columns_witness:
  "length (cycle_analytics_table
       (fst (analytics_callback (fst (analytics_callback two_cycles_db 1 (Some third_cycle)))
              2 (Some third_cycle)))) = 3
   \<and> map stable_columns (cycle_analytics_table
       (fst (analytics_callback (fst (analytics_callback two_cycles_db 1 (Some third_cycle)))
              2 (Some third_cycle))))
     = map stable_columns (history_two @ [third_row_once])
   \<and> (\<exists>a. cycle_analytics_table
       (fst (analytics_callback (fst (analytics_callback two_cycles_db 1 (Some third_cycle)))
              2 (Some third_cycle)))
     = (history_two @ [third_row_once])[2 := a])"
proof -
  let ?T2 = "cycle_analytics_table
       (fst (analytics_callback (fst (analytics_callback two_cycles_db 1 (Some third_cycle)))
              2 (Some third_cycle)))"
  have t: "cycle_analytics_table two_cycles_db = history_two"
    by (simp add: two_cycles_db_def)
  have a: "cycle_analytics_table (fst (analytics_callback two_cycles_db 1 (Some third_cycle)))
      = history_two @ [third_row_once]"
    by (simp add: callback_table handle_cycle_event_table t third_cycle_first_time)
  have b: "?T2 = history_two @ [third_row_twice]"
    by (simp add: callback_table handle_cycle_event_table t third_cycle_first_time
        third_cycle_second_time)
  have changed: "?T2 \<noteq> history_two @ [third_row_once]"
    unfolding b by (simp add: third_row_once_def third_row_twice_def analytics_row_def)
  have f: "first_by_cycle_id (Option.bind (Some third_cycle) msg_cycle_id)
      (history_two @ [third_row_once]) = Some 2"
    by (simp add: first_by_cycle_id_def history_two_def third_row_once_def analytics_row_def
        third_cycle_def)
  note r = replay_keeps_stable_columns [of two_cycles_db 1 "Some third_cycle" 2,
      unfolded Let_def a]
  from r have "length ?T2 = length (history_two @ [third_row_once])"
    by (rule conjunct1)
  then have l: "length ?T2 = 3"
    by (simp add: history_two_def)
  from r have m: "map stable_columns ?T2 = map stable_columns (history_two @ [third_row_once])"
    by (rule conjunct1 [OF conjunct2])
  from r obtain i a where u: "?T2 = (history_two @ [third_row_once])[i := a]"
    and w: "?T2 \<noteq> history_two @ [third_row_once] \<longrightarrow>
        first_by_cycle_id (Option.bind (Some third_cycle) msg_cycle_id)
          (history_two @ [third_row_once]) = Some i"
    by blast
  from w changed f have "i = 2" by simp
  with u have "\<exists>a. ?T2 = (history_two @ [third_row_once])[2 := a]" by blast
  with l m show ?thesis by blast
qed

section \<open>One active prediction\<close>

























section \<open>Connecting with retries\<close>

lemma connect_from_fail:
  "a < n \<Longrightarrow> \<forall>i. a \<le> i \<and> i < n \<longrightarrow> \<not> broker i \<Longrightarrow>
   connect_from broker n d a =
     (concat (map (\<lambda>i. [Attempt i, Sleep d]) [a..<n - 1]) @ [Attempt (n - 1)],
      Some AMQPConnectionError)"
proof (induction broker n d a rule: connect_from.induct)
  case (1 broker n d a)
  have nb: "\<not> broker a" using "1.prems" by simp
  show ?case
  proof (cases "a < n - 1")
    case True
    from "1.IH" [OF "1.prems"(1) nb True] "1.prems" True
    have "connect_from broker n d (a + 1) =
        (concat (map (\<lambda>i. [Attempt i, Sleep d]) [a + 1..<n - 1]) @ [Attempt (n - 1)],
         Some AMQPConnectionError)"
      by simp
    moreover have "[a..<n - 1] = a # [a + 1..<n - 1]"
      using True by (simp add: upt_conv_Cons)
    ultimately show ?thesis
      using "1.prems"(1) nb True by (subst connect_from.simps) simp
  next
    case False
    with "1.prems"(1) have "a = n - 1" by simp
    with "1.prems"(1) nb False show ?thesis
      by (subst connect_from.simps) simp
  qed
qed

lemma connect_from_success:
  "a \<le> k \<Longrightarrow> k < n \<Longrightarrow> broker k \<Longrightarrow> \<forall>i. a \<le> i \<and> i < k \<longrightarrow> \<not> broker i \<Longrightarrow>
   connect_from broker n d a =
     (concat (map (\<lambda>i. [Attempt i, Sleep d]) [a..<k]) @ [Attempt k], None)"
proof (induction broker n d a rule: connect_from.induct)
  case (1 broker n d a)
  show ?case
  proof (cases "a = k")
    case True
    with "1.prems" show ?thesis
      by (subst connect_from.simps) simp
  next
    case False
    with "1.prems" have lt: "a < k" and nb: "\<not> broker a" and an: "a < n" and an1: "a < n - 1"
      by auto
    from "1.IH" [OF an nb an1] "1.prems" lt
    have "connect_from broker n d (a + 1) =
        (concat (map (\<lambda>i. [Attempt i, Sleep d]) [a + 1..<k]) @ [Attempt k], None)"
      by simp
    moreover have "[a..<k] = a # [a + 1..<k]"
      using lt by (simp add: upt_conv_Cons)
    ultimately show ?thesis
      using an nb an1 by (subst connect_from.simps) simp
  qed
qed

lemma attempts_retry_trace: "attempts (retry_trace d k) = [0..<Suc k]"
  by (induction k) (simp_all add: attempts_def retry_trace_def)

lemma sleeps_retry_trace: "sleeps (retry_trace d k) = replicate k d"
  by (induction k) (simp_all add: sleeps_def retry_trace_def replicate_append_same)

text \<open>
  Claim C5, for the connects that hold it, and without the startup abort. The connect of
  both consumers and of the cycle-tracking publisher makes up to 5 attempts with a sleep
  of 5 seconds between two attempts: when all five fail it raises to its caller after the
  fifth, with four sleeps behind it; when attempt \<open>k\<close> is the first to succeed it
  returns after \<open>k + 1\<close> attempts and \<open>k\<close> sleeps. The callers that the sources hold
  catch what it raises: \<open>create_app\<close> of the notification service returns the
  application, without a consumer thread, and \<open>get_publisher\<close> raises into the inner
  \<open>try\<close> of the cycle-tracking routes, which leaves the state of the service as it is.
\<close>

theorem connect_retries_five_times:
  "((\<forall>i<5. \<not> broker i) \<longrightarrow>
       cycle_publisher_connect broker = (retry_trace 5 4, Some AMQPConnectionError)
     \<and> analytics_consumer_connect broker = (retry_trace 5 4, Some AMQPConnectionError)
     \<and> notification_consumer_connect broker = (retry_trace 5 4, Some AMQPConnectionError)
     \<and> notification_create_app broker = (retry_trace 5 4, Inr False)
     \<and> (\<not> publisher_created st \<and> reachable env = broker \<longrightarrow>
          get_publisher st env = Inl AMQPConnectionError \<and> try_publish st env c = st))
 \<and> (k < 5 \<and> broker k \<and> (\<forall>i<k. \<not> broker i) \<longrightarrow>
       cycle_publisher_connect broker = (retry_trace 5 k, None)
     \<and> analytics_consumer_connect broker = (retry_trace 5 k, None)
     \<and> notification_consumer_connect broker = (retry_trace 5 k, None)
     \<and> notification_create_app broker = (retry_trace 5 k, Inr True))
 \<and> attempts (retry_trace 5 k) = [0..<Suc k]
 \<and> sleeps (retry_trace 5 k) = replicate k 5"
proof -
  have f: "(\<forall>i<5. \<not> broker i) \<Longrightarrow>
      connect_from broker 5 5 0 = (retry_trace 5 4, Some AMQPConnectionError)"
    using connect_from_fail [of 0 5 broker 5] by (simp add: retry_trace_def)
  have s: "k < 5 \<Longrightarrow> broker k \<Longrightarrow> (\<forall>i<k. \<not> broker i) \<Longrightarrow>
      connect_from broker 5 5 0 = (retry_trace 5 k, None)"
    using connect_from_success [of 0 k 5 broker 5] by (simp add: retry_trace_def)
  show ?thesis
    using f s
    by (simp add: cycle_publisher_connect_def analytics_consumer_connect_def
        notification_consumer_connect_def notification_start_consumer_def
        notification_create_app_def get_publisher_def try_publish_def
        attempts_retry_trace sleeps_retry_trace)
qed

text \<open>
  The claim as written fails twice. For every publisher: with a broker that is never
  reachable the analytics publisher makes one attempt and returns normally, where the
  cycle-tracking publisher makes five and raises. As a startup abort: with the same broker
  \<open>create_app\<close> of the notification service makes the five attempts and returns the
  application, with no consumer thread, and the cycle-tracking service, whose publisher
  connects at the first request, answers that request with 201.
\<close>

theorem analytics_publisher_connect_counterexample:
  "analytics_publisher_connect (\<lambda>n. False) = ([Attempt 0], None)
   \<and> cycle_publisher_connect (\<lambda>n. False) =
       ([Attempt 0, Sleep 5, Attempt 1, Sleep 5, Attempt 2, Sleep 5, Attempt 3, Sleep 5,
         Attempt 4], Some AMQPConnectionError)
   \<and> notification_create_app (\<lambda>n. False) =
       ([Attempt 0, Sleep 5, Attempt 1, Sleep 5, Attempt 2, Sleep 5, Attempt 3, Sleep 5,
         Attempt 4], Inr False)
   \<and> get_publisher empty_tracking_state broker_down = Inl AMQPConnectionError
   \<and> create_cycle empty_tracking_state broker_down 7 (Some new_cycle_request) =
       (201, empty_tracking_state\<lparr>cycles_table := [new_cycle_row]\<rparr>)"
  by (simp add: analytics_publisher_connect_def cycle_publisher_connect_def
      notification_create_app_def notification_start_consumer_def
      notification_consumer_connect_def connect_from.simps
      create_cycle_def empty_tracking_state_def broker_down_def new_cycle_request_def
      new_cycle_row_def fromisoformat_item_def parse_end_date_def is_date_def MINORDINAL_def
      MAXORDINAL_def fresh_id_def try_publish_def get_publisher_def Let_def)

theorem connect_retries_five_times_witness:
  "analytics_consumer_connect (\<lambda>n. False) =
       ([Attempt 0, Sleep 5, Attempt 1, Sleep 5, Attempt 2, Sleep 5, Attempt 3, Sleep 5,
         Attempt 4], Some AMQPConnectionError)
   \<and> notification_create_app (\<lambda>n. False) =
       ([Attempt 0, Sleep 5, Attempt 1, Sleep 5, Attempt 2, Sleep 5, Attempt 3, Sleep 5,
         Attempt 4], Inr False)
   \<and> get_publisher empty_tracking_state broker_down = Inl AMQPConnectionError
   \<and> try_publish empty_tracking_state broker_down new_cycle_row = empty_tracking_state
   \<and> notification_consumer_connect (\<lambda>n. 2 \<le> n) =
       ([Attempt 0, Sleep 5, Attempt 1, Sleep 5, Attempt 2], None)
   \<and> notification_create_app (\<lambda>n. 2 \<le> n) =
       ([Attempt 0, Sleep 5, Attempt 1, Sleep 5, Attempt 2], Inr True)"
proof -
  have down: "\<not> publisher_created empty_tracking_state"
    "reachable broker_down = (\<lambda>n. False)"
    by (simp_all add: empty_tracking_state_def broker_down_def)
  note f = connect_retries_five_times [where broker = "\<lambda>n. False" and k = 0
      and st = empty_tracking_state and env = broker_down and c = new_cycle_row]
  note s = connect_retries_five_times [where broker = "\<lambda>n. 2 \<le> n" and k = 2
      and st = empty_tracking_state and env = broker_down and c = new_cycle_row]
  have a: "analytics_consumer_connect (\<lambda>n. False) = (retry_trace 5 4, Some AMQPConnectionError)"
    and a': "notification_create_app (\<lambda>n. False) = (retry_trace 5 4, Inr False)"
    and g: "get_publisher empty_tracking_state broker_down = Inl AMQPConnectionError"
    and t: "try_publish empty_tracking_state broker_down new_cycle_row = empty_tracking_state"
    using f down by simp_all
  have b: "notification_consumer_connect (\<lambda>n. 2 \<le> n) = (retry_trace 5 2, None)"
    and b': "notification_create_app (\<lambda>n. 2 \<le> n) = (retry_trace 5 2, Inr True)"
    using s by simp_all
  have "retry_trace 5 4 = [Attempt 0, Sleep 5, Attempt 1, Sleep 5, Attempt 2, Sleep 5,
      Attempt 3, Sleep 5, Attempt 4]"
    and "retry_trace 5 2 = [Attempt 0, Sleep 5, Attempt 1, Sleep 5, Attempt 2]"
    by (simp_all add: retry_trace_def upt_rec)
  with a a' g t b b' show ?thesis by simp
qed

section \<open>The period reminder\<close>

lemma find_SomeD: "find P xs = Some x \<Longrightarrow> P x \<and> x \<in> set xs"
  by (induction xs) (auto split: if_splits)

lemma load_preferences_cases:
  "\<exists>db1 prefs. load_preferences db (Some u) = Inr (db1, prefs)
     \<and> pref_user_id prefs = u
     \<and> prefs \<in> set (preferences_table db1)
     \<and> notifications_table db1 = notifications_table db
     \<and> (case find (\<lambda>p. Some (pref_user_id p) = Some u) (preferences_table db) of
          Some q \<Rightarrow> prefs = q \<and> db1 = db
        | None \<Rightarrow> preferences_table db1 = preferences_table db @ [prefs]
            \<and> pref_period_reminder_enabled prefs = Some True
            \<and> pref_reminder_days_before prefs = 3)"
proof (cases "find (\<lambda>p. Some (pref_user_id p) = Some u) (preferences_table db)")
  case None
  then show ?thesis
    by (simp add: load_preferences_def Let_def)
next
  case (Some q)
  from find_SomeD [OF Some] have "pref_user_id q = u" and "q \<in> set (preferences_table db)"
    by simp_all
  with Some show ?thesis
    by (simp add: load_preferences_def)
qed

lemma reminder_date_ok:
  "is_date d \<Longrightarrow> is_date (d - days) \<Longrightarrow> reminder_date (Iso d) days = Inr (d - days)"
  by (auto simp: reminder_date_def fromisoformat_get_def timedelta_def date_add_def is_date_def
      MINORDINAL_def MAXORDINAL_def)

text \<open>
  Claim C7. For a prediction event (a message with an event type and a user id) the
  user's preferences are loaded, or created and committed with reminders enabled and 3
  days when the user has none. When reminders are enabled and the event carries a
  predicted start date from which the days can be subtracted within the calendar, the
  callback inserts one notification with status pending, scheduled for the predicted date
  minus \<open>reminder_days_before\<close> days. When reminders are not enabled it inserts none. In
  both cases the delivery is acknowledged.
\<close>

theorem period_reminder_scheduled:
  assumes "pm_event_type m \<noteq> None" and "pm_user_id m = Some u"
  shows "\<exists>db1 prefs.
      load_preferences db (Some u) = Inr (db1, prefs)
    \<and> pref_user_id prefs = u
    \<and> prefs \<in> set (preferences_table db1)
    \<and> ((\<forall>q \<in> set (preferences_table db). pref_user_id q \<noteq> u) \<longrightarrow>
          preferences_table db1 = preferences_table db @ [prefs]
        \<and> pref_period_reminder_enabled prefs = Some True
        \<and> pref_reminder_days_before prefs = 3)
    \<and> ((\<exists>q \<in> set (preferences_table db). pref_user_id q = u) \<longrightarrow>
          db1 = db)
    \<and> (pref_period_reminder_enabled prefs = Some True
        \<and> pm_predicted_start_date m = Iso d \<and> is_date d
        \<and> is_date (d - pref_reminder_days_before prefs) \<longrightarrow>
          (\<exists>n. notification_callback db tag (Some m) =
                  (db1\<lparr>notifications_table := notifications_table db @ [n]\<rparr>, BasicAck tag)
              \<and> n_status n = ''pending''
              \<and> n_scheduled_for n = d - pref_reminder_days_before prefs
              \<and> n_user_id n = u
              \<and> n_prediction_id n = pm_prediction_id m
              \<and> n_notification_type n = ''period_reminder''))
    \<and> (pref_period_reminder_enabled prefs \<noteq> Some True \<longrightarrow>
          notification_callback db tag (Some m) = (db1, BasicAck tag)
        \<and> notifications_table db1 = notifications_table db)"
proof -
  from load_preferences_cases [of db u] obtain db1 prefs where
      l: "load_preferences db (Some u) = Inr (db1, prefs)"
      and pu: "pref_user_id prefs = u"
      and pin: "prefs \<in> set (preferences_table db1)"
      and nt: "notifications_table db1 = notifications_table db"
      and c: "(case find (\<lambda>p. Some (pref_user_id p) = Some u) (preferences_table db) of
          Some q \<Rightarrow> prefs = q \<and> db1 = db
        | None \<Rightarrow> preferences_table db1 = preferences_table db @ [prefs]
            \<and> pref_period_reminder_enabled prefs = Some True
            \<and> pref_reminder_days_before prefs = 3)"
    by blast
  have new: "(\<forall>q \<in> set (preferences_table db). pref_user_id q \<noteq> u) \<longrightarrow>
          preferences_table db1 = preferences_table db @ [prefs]
        \<and> pref_period_reminder_enabled prefs = Some True
        \<and> pref_reminder_days_before prefs = 3"
  proof
    assume "\<forall>q \<in> set (preferences_table db). pref_user_id q \<noteq> u"
    then have "find (\<lambda>p. Some (pref_user_id p) = Some u) (preferences_table db) = None"
      by (simp add: find_None_iff)
    with c show "preferences_table db1 = preferences_table db @ [prefs]
        \<and> pref_period_reminder_enabled prefs = Some True
        \<and> pref_reminder_days_before prefs = 3" by simp
  qed
  have old: "(\<exists>q \<in> set (preferences_table db). pref_user_id q = u) \<longrightarrow> db1 = db"
  proof
    assume "\<exists>q \<in> set (preferences_table db). pref_user_id q = u"
    then have "find (\<lambda>p. Some (pref_user_id p) = Some u) (preferences_table db) \<noteq> None"
      by (auto simp: find_None_iff)
    with c show "db1 = db" by auto
  qed
  have on: "pref_period_reminder_enabled prefs = Some True
        \<and> pm_predicted_start_date m = Iso d \<and> is_date d
        \<and> is_date (d - pref_reminder_days_before prefs) \<longrightarrow>
          (\<exists>n. notification_callback db tag (Some m) =
                  (db1\<lparr>notifications_table := notifications_table db @ [n]\<rparr>, BasicAck tag)
              \<and> n_status n = ''pending''
              \<and> n_scheduled_for n = d - pref_reminder_days_before prefs
              \<and> n_user_id n = u
              \<and> n_prediction_id n = pm_prediction_id m
              \<and> n_notification_type n = ''period_reminder'')"
    using assms l nt
    by (auto simp: notification_callback_def handle_prediction_event_def
        create_period_reminder_def reminder_date_ok Let_def)
  have off: "pref_period_reminder_enabled prefs \<noteq> Some True \<longrightarrow>
          notification_callback db tag (Some m) = (db1, BasicAck tag)
        \<and> notifications_table db1 = notifications_table db"
    using assms l nt
    by (auto simp: notification_callback_def handle_prediction_event_def
        create_period_reminder_def)
  from l pu pin new old on off show ?thesis by blast
qed

lemma load_default_preferences:
  "load_preferences empty_notification_db (Some 1) =
     Inr (empty_notification_db\<lparr>preferences_table := [default_preferences]\<rparr>,
          default_preferences)"
  by (simp add: load_preferences_def empty_notification_db_def default_preferences_def
      fresh_id_def Let_def)

lemma load_switched_off_preferences:
  "load_preferences reminders_off_db (Some 1) =
     Inr (reminders_off_db, default_preferences\<lparr>pref_period_reminder_enabled := Some False\<rparr>)"
  by (simp add: load_preferences_def reminders_off_db_def default_preferences_def)

text \<open>
  The two scenarios of the specification: a prediction for 2024-03-01 with the default of 3
  days gives a reminder for 2024-02-27; with reminders switched off it gives none.
\<close>

theorem period_reminder_scheduled_witness:
  "(\<exists>n. notification_callback empty_notification_db 1 (Some (prediction_event 1 5 738946)) =
          (\<lparr>preferences_table = [default_preferences], notifications_table = [n]\<rparr>,
           BasicAck 1)
       \<and> n_status n = ''pending'' \<and> n_scheduled_for n = 738943 \<and> n_user_id n = 1
       \<and> n_prediction_id n = Some 5)
   \<and> notification_callback reminders_off_db 2 (Some (prediction_event 1 6 738946)) =
       (reminders_off_db, BasicAck 2)"
proof -
  have ev: "pm_event_type (prediction_event 1 k 738946) \<noteq> None"
    and us: "pm_user_id (prediction_event 1 k 738946) = Some 1" for k
    by (simp_all add: prediction_event_def)
  from period_reminder_scheduled [where m = "prediction_event 1 5 738946" and u = 1
      and db = empty_notification_db and d = 738946 and tag = 1, OF ev us]
  obtain db1 prefs where
      l: "load_preferences empty_notification_db (Some 1) = Inr (db1, prefs)"
      and on: "pref_period_reminder_enabled prefs = Some True
        \<and> pm_predicted_start_date (prediction_event 1 5 738946) = Iso 738946 \<and> is_date 738946
        \<and> is_date (738946 - pref_reminder_days_before prefs) \<longrightarrow>
          (\<exists>n. notification_callback empty_notification_db 1 (Some (prediction_event 1 5 738946)) =
                  (db1\<lparr>notifications_table := notifications_table empty_notification_db @ [n]\<rparr>,
                   BasicAck 1)
              \<and> n_status n = ''pending''
              \<and> n_scheduled_for n = 738946 - pref_reminder_days_before prefs
              \<and> n_user_id n = 1
              \<and> n_prediction_id n = pm_prediction_id (prediction_event 1 5 738946)
              \<and> n_notification_type n = ''period_reminder'')"
    by blast
  from l have d: "db1 = empty_notification_db\<lparr>preferences_table := [default_preferences]\<rparr>"
    and p: "prefs = default_preferences"
    by (simp_all add: load_default_preferences)
  from on have a: "\<exists>n. notification_callback empty_notification_db 1
          (Some (prediction_event 1 5 738946)) =
          (\<lparr>preferences_table = [default_preferences], notifications_table = [n]\<rparr>,
           BasicAck 1)
       \<and> n_status n = ''pending'' \<and> n_scheduled_for n = 738943 \<and> n_user_id n = 1
       \<and> n_prediction_id n = Some 5"
    unfolding d p
    by (auto simp: default_preferences_def prediction_event_def is_date_def MINORDINAL_def
        MAXORDINAL_def empty_notification_db_def)
  from period_reminder_scheduled [where m = "prediction_event 1 6 738946" and u = 1
      and db = reminders_off_db and d = 738946 and tag = 2, OF ev us]
  obtain db2 prefs2 where
      l2: "load_preferences reminders_off_db (Some 1) = Inr (db2, prefs2)"
      and off: "pref_period_reminder_enabled prefs2 \<noteq> Some True \<longrightarrow>
          notification_callback reminders_off_db 2 (Some (prediction_event 1 6 738946))
            = (db2, BasicAck 2)
        \<and> notifications_table db2 = notifications_table reminders_off_db"
    by blast
  from l2 have d2: "db2 = reminders_off_db"
    and p2: "prefs2 = default_preferences\<lparr>pref_period_reminder_enabled := Some False\<rparr>"
    by (simp_all add: load_switched_off_preferences)
  from off have b: "notification_callback reminders_off_db 2
      (Some (prediction_event 1 6 738946)) = (reminders_off_db, BasicAck 2)"
    unfolding d2 p2 by simp
  from a b show ?thesis by simp
qed

section \<open>A publish that fails\<close>

lemma publish_cycle_event_tables:
  "cycles_table (publish_cycle_event st env is_closed d) = cycles_table st
   \<and> symptoms_table (publish_cycle_event st env is_closed d) = symptoms_table st"
  by (simp add: publish_cycle_event_def split: option.splits)

lemma try_publish_tables:
  "cycles_table (try_publish st env c) = cycles_table st
   \<and> symptoms_table (try_publish st env c) = symptoms_table st"
  by (auto simp: try_publish_def get_publisher_def publish_cycle_event_tables
      split: sum.splits option.splits if_splits)

lemma create_cycle_independent:
  "fst (create_cycle st env u body) = fst (create_cycle st env' u body)
   \<and> cycles_table (snd (create_cycle st env u body))
       = cycles_table (snd (create_cycle st env' u body))
   \<and> symptoms_table (snd (create_cycle st env u body))
       = symptoms_table (snd (create_cycle st env' u body))"
  by (simp add: create_cycle_def Let_def try_publish_tables
      split: option.splits sum.splits)

lemma update_cycle_independent:
  "fst (update_cycle st env u c body) = fst (update_cycle st env' u c body)
   \<and> cycles_table (snd (update_cycle st env u c body))
       = cycles_table (snd (update_cycle st env' u c body))
   \<and> symptoms_table (snd (update_cycle st env u c body))
       = symptoms_table (snd (update_cycle st env' u c body))"
  by (simp add: update_cycle_def Let_def try_publish_tables
      split: option.splits sum.splits)

lemma create_symptom_independent:
  "fst (create_symptom st env u body) = fst (create_symptom st env' u body)
   \<and> cycles_table (snd (create_symptom st env u body))
       = cycles_table (snd (create_symptom st env' u body))
   \<and> symptoms_table (snd (create_symptom st env u body))
       = symptoms_table (snd (create_symptom st env' u body))"
  by (simp add: create_symptom_def Let_def try_publish_tables
      split: option.splits sum.splits)

text \<open>
  Claim C9. For the three routes that publish a cycle event, the HTTP status and the
  committed tables are the same whatever the broker does: with a broker that cannot be
  reached they are what they are with one that works. For \<open>create_cycle\<close> with a
  well-formed request this is status 201 and the new row in the table, which is committed
  before the publish is tried.
\<close>

theorem publish_failure_is_contained:
  "fst (create_cycle st env u body) = fst (create_cycle st env' u body)
   \<and> cycles_table (snd (create_cycle st env u body))
       = cycles_table (snd (create_cycle st env' u body))
   \<and> symptoms_table (snd (create_cycle st env u body))
       = symptoms_table (snd (create_cycle st env' u body))
   \<and> fst (update_cycle st env u c ubody) = fst (update_cycle st env' u c ubody)
   \<and> cycles_table (snd (update_cycle st env u c ubody))
       = cycles_table (snd (update_cycle st env' u c ubody))
   \<and> symptoms_table (snd (update_cycle st env u c ubody))
       = symptoms_table (snd (update_cycle st env' u c ubody))
   \<and> fst (create_symptom st env u sbody) = fst (create_symptom st env' u sbody)
   \<and> cycles_table (snd (create_symptom st env u sbody))
       = cycles_table (snd (create_symptom st env' u sbody))
   \<and> symptoms_table (snd (create_symptom st env u sbody))
       = symptoms_table (snd (create_symptom st env' u sbody))
   \<and> (fromisoformat_item (req_start_date data) = Inr d
        \<and> parse_end_date (req_end_date data) d = Inr ended \<longrightarrow>
          fst (create_cycle st env u (Some data)) = 201
        \<and> cycles_table (snd (create_cycle st env u (Some data))) =
            cycles_table st @
              [\<lparr>c_id = fresh_id (map c_id (cycles_table st)), c_user_id = u,
                c_start_date = d, c_end_date = map_option fst ended,
                c_cycle_length = None, c_period_length = None\<rparr>])"
proof -
  have "fromisoformat_item (req_start_date data) = Inr d
        \<and> parse_end_date (req_end_date data) d = Inr ended \<longrightarrow>
          fst (create_cycle st env u (Some data)) = 201
        \<and> cycles_table (snd (create_cycle st env u (Some data))) =
            cycles_table st @
              [\<lparr>c_id = fresh_id (map c_id (cycles_table st)), c_user_id = u,
                c_start_date = d, c_end_date = map_option fst ended,
                c_cycle_length = None, c_period_length = None\<rparr>]"
    by (auto simp: create_cycle_def Let_def try_publish_tables fromisoformat_item_def)
  with create_cycle_independent [of st env u body env']
    update_cycle_independent [of st env u c ubody env']
    create_symptom_independent [of st env u sbody env']
  show ?thesis by blast
qed

lemma create_cycle_broker_down:
  "create_cycle empty_tracking_state broker_down 7 (Some new_cycle_request) =
     (201, empty_tracking_state\<lparr>cycles_table := [new_cycle_row]\<rparr>)"
  by (simp add: create_cycle_def empty_tracking_state_def broker_down_def new_cycle_request_def
      new_cycle_row_def fromisoformat_item_def parse_end_date_def is_date_def MINORDINAL_def
      MAXORDINAL_def fresh_id_def try_publish_def get_publisher_def cycle_publisher_connect_def
      connect_from.simps Let_def)

lemma create_cycle_broker_up:
  "create_cycle empty_tracking_state broker_up 7 (Some new_cycle_request) =
     (201, \<lparr>cycles_table = [new_cycle_row], symptoms_table = [], publisher_created = True,
            exchange = [(new_cycle_row, [])]\<rparr>)"
  by (simp add: create_cycle_def empty_tracking_state_def broker_up_def new_cycle_request_def
      new_cycle_row_def fromisoformat_item_def parse_end_date_def is_date_def MINORDINAL_def
      MAXORDINAL_def fresh_id_def try_publish_def get_publisher_def cycle_publisher_connect_def
      publish_cycle_event_def connect_from.simps Let_def)

theorem publish_failure_is_contained_witness:
  "fst (create_cycle empty_tracking_state broker_down 7 (Some new_cycle_request)) = 201
   \<and> cycles_table (snd (create_cycle empty_tracking_state broker_down 7
        (Some new_cycle_request))) = [new_cycle_row]
   \<and> exchange (snd (create_cycle empty_tracking_state broker_down 7
        (Some new_cycle_request))) = []
   \<and> exchange (snd (create_cycle empty_tracking_state broker_up 7
        (Some new_cycle_request))) = [(new_cycle_row, [])]"
proof -
  have s: "fromisoformat_item (req_start_date new_cycle_request) = Inr 738886"
    and e: "parse_end_date (req_end_date new_cycle_request) 738886 = Inr None"
    by (simp_all add: new_cycle_request_def fromisoformat_item_def parse_end_date_def is_date_def
        MINORDINAL_def MAXORDINAL_def)
  note t = publish_failure_is_contained [where st = empty_tracking_state and env = broker_down
      and env' = broker_up and u = 7 and body = "Some new_cycle_request" and c = 0
      and ubody = None and sbody = None and data = new_cycle_request and d = 738886
      and ended = None]
  from t have "fromisoformat_item (req_start_date new_cycle_request) = Inr 738886
        \<and> parse_end_date (req_end_date new_cycle_request) 738886 = Inr None \<longrightarrow>
          fst (create_cycle empty_tracking_state broker_down 7 (Some new_cycle_request)) = 201
        \<and> cycles_table (snd (create_cycle empty_tracking_state broker_down 7
              (Some new_cycle_request))) =
            cycles_table empty_tracking_state @
              [\<lparr>c_id = fresh_id (map c_id (cycles_table empty_tracking_state)), c_user_id = 7,
                c_start_date = 738886, c_end_date = map_option fst (None :: (date \<times> int) option),
                c_cycle_length = None, c_period_length = None\<rparr>]"
    by blast
  with s e have a: "fst (create_cycle empty_tracking_state broker_down 7
        (Some new_cycle_request)) = 201"
    and b: "cycles_table (snd (create_cycle empty_tracking_state broker_down 7
              (Some new_cycle_request))) =
            cycles_table empty_tracking_state @
              [\<lparr>c_id = fresh_id (map c_id (cycles_table empty_tracking_state)), c_user_id = 7,
                c_start_date = 738886, c_end_date = map_option fst (None :: (date \<times> int) option),
                c_cycle_length = None, c_period_length = None\<rparr>]"
    by blast+
  have r: "cycles_table empty_tracking_state @
              [\<lparr>c_id = fresh_id (map c_id (cycles_table empty_tracking_state)), c_user_id = 7,
                c_start_date = 738886, c_end_date = map_option fst (None :: (date \<times> int) option),
                c_cycle_length = None, c_period_length = None\<rparr>] = [new_cycle_row]"
    by (simp add: empty_tracking_state_def new_cycle_row_def fresh_id_def)
  have c: "exchange (snd (create_cycle empty_tracking_state broker_down 7
        (Some new_cycle_request))) = []"
    unfolding create_cycle_broker_down by (simp add: empty_tracking_state_def)
  have d: "exchange (snd (create_cycle empty_tracking_state broker_up 7
        (Some new_cycle_request))) = [(new_cycle_row, [])]"
    by (simp add: create_cycle_broker_up)
  from a b [unfolded r] c d show ?thesis by simp
qed

end
